theory Spec2Isabelle
  imports Main
begin

section \<open>The SOUL compiler front-end: shared data model\<close>

text \<open>
  The development follows the compiler sources
  \<^verbatim>\<open>soul_SanityCheckPass.h\<close>, \<^verbatim>\<open>soul_Parser.h\<close>, \<^verbatim>\<open>soul_ResolutionPass.h\<close> and
  \<^verbatim>\<open>soul_HeartGenerator.h\<close>. A thrown \<^verbatim>\<open>CompileMessage\<close> is a value: the error kind
  together with the code location of the context that threw it. Functions that can throw
  return a sum, with \<open>Inl\<close> for the thrown message.
\<close>

type_synonym CodeLocation = nat

datatype Errors =
    processorNeedsAnOutput
  | runFunctionMustBeVoid
  | runFunctionHasParams
  | processorNeedsRunFunction
  | multipleRunFunctions
  | cannotCallRunFunction
  | noMatchForFunctionCall
  | ambiguousFunctionCall
  | advanceIsNotAMethod
  | advanceHasNoArgs
  | advanceMustBeCalledInRun
  | expected1or2Args
  | expectedStringLiteralAsArg2
  | cannotReadFromOutput
  | cannotUseProcessorAsOutput
  | expectedValue
  | failedToResolveGenericFunctionCall
  | notAllControlPathsReturnAValue
  | eventParamsCannotBeNonConstReference
  | divideByZero
  | moduloZero
  | comparisonAlwaysTrue
  | comparisonAlwaysFalse
  | illegalTypesForBinaryOperator
  | otherError string

type_synonym CompileMessage = "Errors \<times> CodeLocation"

subsection \<open>Types\<close>

text \<open>
  Modelled from the spec: \<^verbatim>\<open>soul::Type\<close> is declared in a header that is not part of the
  sources at hand. Section 3 of the specification lists the primitive kinds, the
  composite kinds (fixed-size vector, fixed-size array, unsized array, struct, the
  bounded-int variants \<^verbatim>\<open>wrap<N>\<close> and \<^verbatim>\<open>clamp<N>\<close>) and the modifiers \<^verbatim>\<open>const\<close> and
  \<^verbatim>\<open>&\<close>. The default-constructed \<^verbatim>\<open>Type()\<close> is the invalid type. The two modifiers are
  flags of the real class; here \<open>isConstFlag\<close> and \<open>isRefFlag\<close> carry them.
\<close>

datatype PrimitiveType = prim_void | prim_bool | int32 | int64 | float32 | float64 | fixed | stringLiteral

datatype Category =
    invalid
  | primitive PrimitiveType
  | vector PrimitiveType nat
  | array Category nat
  | unsizedArray Category
  | wrap nat
  | clamp nat
  | struct string

record Type =
  category :: Category
  isConstFlag :: bool
  isRefFlag :: bool

definition mkType :: "Category \<Rightarrow> Type" where
  "mkType c = \<lparr> category = c, isConstFlag = False, isRefFlag = False \<rparr>"

definition isVoid :: "Type \<Rightarrow> bool" where
  "isVoid t = (category t = primitive prim_void)"

definition isValid :: "Type \<Rightarrow> bool" where
  "isValid t = (category t \<noteq> invalid)"

definition isIdentical :: "Type \<Rightarrow> Type \<Rightarrow> bool" where
  "isIdentical a b = (a = b)"

definition isConst :: "Type \<Rightarrow> bool" where
  "isConst t = isConstFlag t"

definition isReference :: "Type \<Rightarrow> bool" where
  "isReference t = isRefFlag t"

definition isNonConstReference :: "Type \<Rightarrow> bool" where
  "isNonConstReference t = (isRefFlag t \<and> \<not> isConstFlag t)"

definition removeConstIfPresent :: "Type \<Rightarrow> Type" where
  "removeConstIfPresent t = t\<lparr>isConstFlag := False\<rparr>"

definition removeReferenceIfPresent :: "Type \<Rightarrow> Type" where
  "removeReferenceIfPresent t = t\<lparr>isRefFlag := False\<rparr>"

fun isPrimitiveCategory :: "Category \<Rightarrow> bool" where
  "isPrimitiveCategory (primitive _) = True"
| "isPrimitiveCategory _ = False"

fun isBoundedIntCategory :: "Category \<Rightarrow> bool" where
  "isBoundedIntCategory (wrap _) = True"
| "isBoundedIntCategory (clamp _) = True"
| "isBoundedIntCategory _ = False"

definition isPrimitive :: "Type \<Rightarrow> bool" where
  "isPrimitive t = isPrimitiveCategory (category t)"

definition isBoundedInt :: "Type \<Rightarrow> bool" where
  "isBoundedInt t = isBoundedIntCategory (category t)"

fun isArrayCategory :: "Category \<Rightarrow> bool" where
  "isArrayCategory (array _ _) = True"
| "isArrayCategory (unsizedArray _) = True"
| "isArrayCategory _ = False"

fun isFixedSizeArrayCategory :: "Category \<Rightarrow> bool" where
  "isFixedSizeArrayCategory (array _ _) = True"
| "isFixedSizeArrayCategory _ = False"

fun isVectorCategory :: "Category \<Rightarrow> bool" where
  "isVectorCategory (vector _ _) = True"
| "isVectorCategory _ = False"

fun elementCategory :: "Category \<Rightarrow> Category" where
  "elementCategory (array e _) = e"
| "elementCategory (unsizedArray e) = e"
| "elementCategory (vector p _) = primitive p"
| "elementCategory _ = invalid"

fun sizeOfCategory :: "Category \<Rightarrow> nat" where
  "sizeOfCategory (array _ n) = n"
| "sizeOfCategory (vector _ n) = n"
| "sizeOfCategory _ = 0"

definition isArray :: "Type \<Rightarrow> bool" where
  "isArray t = isArrayCategory (category t)"

definition isFixedSizeArray :: "Type \<Rightarrow> bool" where
  "isFixedSizeArray t = isFixedSizeArrayCategory (category t)"

definition isVector :: "Type \<Rightarrow> bool" where
  "isVector t = isVectorCategory (category t)"

definition getElementType :: "Type \<Rightarrow> Type" where
  "getElementType t = mkType (elementCategory (category t))"

definition getArraySize :: "Type \<Rightarrow> nat" where
  "getArraySize t = sizeOfCategory (category t)"

definition getVectorSize :: "Type \<Rightarrow> nat" where
  "getVectorSize t = sizeOfCategory (category t)"

subsection \<open>Expressions, variables and functions of the AST\<close>

text \<open>
  Modelled from the spec: \<^verbatim>\<open>soul::Value\<close> is declared outside the sources at hand; its
  values are those of the primitive kinds of section 3 that have values. A floating-point
  value is kept as a mantissa \<open>m\<close> and a binary exponent \<open>e\<close>, for the number \<open>m * 2 ^ e\<close>;
  infinities and NaN are left out.
\<close>

datatype Value =
    BoolValue bool
  | Int32Value int
  | Int64Value int
  | Float32Value int int
  | Float64Value int int
  | StringValue string

fun isPrimitiveInteger :: "Value \<Rightarrow> bool" where
  "isPrimitiveInteger (Int32Value _) = True"
| "isPrimitiveInteger (Int64Value _) = True"
| "isPrimitiveInteger _ = False"

text \<open>The integer part of \<open>m * 2 ^ e\<close>, rounded towards zero.\<close>

definition truncated :: "int \<Rightarrow> int \<Rightarrow> int" where
  "truncated m e =
     (if 0 \<le> e then m * 2 ^ nat e else sgn m * (\<bar>m\<bar> div 2 ^ nat (- e)))"

fun getAsInt64 :: "Value \<Rightarrow> int" where
  "getAsInt64 (Int32Value i) = i"
| "getAsInt64 (Int64Value i) = i"
| "getAsInt64 (Float32Value m e) = truncated m e"
| "getAsInt64 (Float64Value m e) = truncated m e"
| "getAsInt64 (BoolValue b) = (if b then 1 else 0)"
| "getAsInt64 (StringValue _) = 0"

fun isZero :: "Value \<Rightarrow> bool" where
  "isZero (Int32Value i) = (i = 0)"
| "isZero (Int64Value i) = (i = 0)"
| "isZero (Float32Value m e) = (m = 0)"
| "isZero (Float64Value m e) = (m = 0)"
| "isZero (BoolValue b) = (\<not> b)"
| "isZero (StringValue _) = False"

datatype MetaOp = makeConst | makeReference | otherMetaFunction

datatype BinaryOp =
    add | subtract | multiply | divide | modulo
  | equals | notEquals | lessThan | lessThanOrEqual | greaterThan | greaterThanOrEqual
  | otherBinaryOp

text \<open>
  The expression variants of \<^verbatim>\<open>AST::Expression\<close> that the modelled passes inspect. Every
  node carries the code location of its context. \<open>VariableRef\<close> stands for any resolved
  value that is not a constant, with its result type.
\<close>

datatype Expression =
    Constant CodeLocation Value
  | QualifiedIdentifier CodeLocation "string list"
  | VariableRef CodeLocation string Type
  | ConcreteType CodeLocation Type
  | TypeMetaFunction CodeLocation MetaOp Expression
  | SubscriptWithBrackets CodeLocation Expression "Expression option"
  | SubscriptWithChevrons CodeLocation Expression Expression
  | BinaryOperator CodeLocation Expression Expression BinaryOp
  | TernaryOp CodeLocation Expression Expression Expression

fun getAsConstant :: "Expression \<Rightarrow> Value option" where
  "getAsConstant (Constant _ v) = Some v"
| "getAsConstant _ = None"

text \<open>
  \<^verbatim>\<open>AST::VariableDeclaration\<close>: \<open>resolvedType\<close> is \<open>None\<close> while \<^verbatim>\<open>isResolved()\<close> is false;
  \<^verbatim>\<open>getType()\<close> is read only from resolved declarations.
\<close>

record VariableDeclaration =
  vcontext :: CodeLocation
  vname :: string
  declaredType :: "Expression option"
  initialValue :: "Expression option"
  resolvedType :: "Type option"
  isExternal :: bool
  numReads :: nat
  numWrites :: nat

definition isResolved :: "VariableDeclaration \<Rightarrow> bool" where
  "isResolved v = (resolvedType v \<noteq> None)"

definition getType :: "VariableDeclaration \<Rightarrow> Type" where
  "getType v = (case resolvedType v of Some t \<Rightarrow> t | None \<Rightarrow> mkType invalid)"

text \<open>A statement of a function body; the passes modelled here do not look inside.\<close>

datatype Statement = Statement string

text \<open>
  \<^verbatim>\<open>AST::Function\<close>. Functions live in the arena and are compared by address; \<open>fid\<close> is
  that identity. \<open>orginalGenericFunction\<close> (spelt as in the source) is the back-link of a
  specialised clone to the generic function it was cloned from; \<open>isRunFunction\<close> holds the
  answer of the method of that name; \<open>block\<close> is \<open>None\<close> for a function without a body.
\<close>

record Function =
  fid :: nat
  fcontext :: CodeLocation
  fname :: string
  returnType :: Type
  parameters :: "VariableDeclaration list"
  genericWildcards :: "(string \<times> CodeLocation) list"
  genericSpecialisations :: "(string \<times> Type) list"
  orginalGenericFunction :: "nat option"
  isRunFunction :: bool
  block :: "Statement list option"

text \<open>
  Modelled from the spec: \<^verbatim>\<open>AST::Function::isGeneric\<close> is declared outside the sources at
  hand. By section 4.5 a generic function is one that carries wildcards, and the
  specialiser empties the wildcard list of a clone as it binds them.
\<close>

definition isGeneric :: "Function \<Rightarrow> bool" where
  "isGeneric f = (genericWildcards f \<noteq> [])"

datatype ModuleKind = Namespace | Processor | Graph

text \<open>
  \<^verbatim>\<open>AST::ModuleBase\<close>: a processor and a graph are both \<^verbatim>\<open>ProcessorBase\<close>; only they have
  outputs. \<open>outputs\<close> holds the names of the declared output endpoints.
\<close>

datatype ModuleBase =
  ModuleBase (kind: ModuleKind) (mcontext: CodeLocation) (outputs: "string list")
             (getFunctions: "Function list") (getSubModules: "ModuleBase list")

section \<open>Pre-resolution sanity check\<close>

text \<open>
  The loop over the functions of a processor in
  \<^verbatim>\<open>SanityCheckPass::checkOverallStructureOfProcessor\<close>: it counts the run functions and
  throws at the first run function that is not void or that has parameters.
\<close>

fun countRunFunctions :: "Function list \<Rightarrow> nat \<Rightarrow> CompileMessage + nat" where
  "countRunFunctions [] numRunFunctions = Inr numRunFunctions"
| "countRunFunctions (f # fs) numRunFunctions =
     (if isRunFunction f
      then (if \<not> isVoid (returnType f) then Inl (runFunctionMustBeVoid, fcontext f)
            else if parameters f \<noteq> [] then Inl (runFunctionHasParams, fcontext f)
            else countRunFunctions fs (numRunFunctions + 1))
      else countRunFunctions fs numRunFunctions)"

definition checkOverallStructureOfProcessor :: "ModuleBase \<Rightarrow> CompileMessage + unit" where
  "checkOverallStructureOfProcessor processorOrGraph =
     (if outputs processorOrGraph = []
      then Inl (processorNeedsAnOutput, mcontext processorOrGraph)
      else if kind processorOrGraph = Processor
      then (case countRunFunctions (getFunctions processorOrGraph) 0 of
              Inl e \<Rightarrow> Inl e
            | Inr numRunFunctions \<Rightarrow>
                if numRunFunctions = 0
                then Inl (processorNeedsRunFunction, mcontext processorOrGraph)
                else if numRunFunctions > 1
                then Inl (multipleRunFunctions, mcontext processorOrGraph)
                else Inr ())
      else Inr ())"

text \<open>
  \<^verbatim>\<open>SanityCheckPass::checkOverallStructure\<close>: the module itself when it is a processor or
  a graph, then its sub-modules in order; the first throw ends the walk.
\<close>

fun checkOverallStructure :: "ModuleBase \<Rightarrow> CompileMessage + unit"
  and checkSubModules :: "ModuleBase list \<Rightarrow> CompileMessage + unit" where
  "checkOverallStructure (ModuleBase k c outs fs subs) =
     (case (if k = Processor \<or> k = Graph
            then checkOverallStructureOfProcessor (ModuleBase k c outs fs subs)
            else Inr ()) of
        Inl e \<Rightarrow> Inl e
      | Inr _ \<Rightarrow> checkSubModules subs)"
| "checkSubModules [] = Inr ()"
| "checkSubModules (m # ms) =
     (case checkOverallStructure m of Inl e \<Rightarrow> Inl e | Inr _ \<Rightarrow> checkSubModules ms)"

definition runPreResolution :: "ModuleBase \<Rightarrow> CompileMessage + unit" where
  "runPreResolution module = checkOverallStructure module"

text \<open>
  The structural requirement in the words of the specification: a processor or graph has
  at least one output; a processor has exactly one run function, and no run function of
  it returns a value or declares parameters.
\<close>

definition runFunctions :: "ModuleBase \<Rightarrow> Function list" where
  "runFunctions m = filter isRunFunction (getFunctions m)"

definition violatesStructure :: "ModuleBase \<Rightarrow> bool" where
  "violatesStructure m =
     ((kind m \<in> {Processor, Graph} \<and> outputs m = [])
      \<or> (kind m = Processor
          \<and> (length (runFunctions m) = 0
             \<or> length (runFunctions m) > 1
             \<or> (\<exists>f \<in> set (runFunctions m). \<not> isVoid (returnType f))
             \<or> (\<exists>f \<in> set (runFunctions m). parameters f \<noteq> []))))"

fun allModules :: "ModuleBase \<Rightarrow> ModuleBase list" where
  "allModules (ModuleBase k c outs fs subs) =
     ModuleBase k c outs fs subs # concat (map allModules subs)"

lemma countRunFunctions_Inr:
  "\<forall>f \<in> set (filter isRunFunction fs). isVoid (returnType f) \<and> parameters f = [] \<Longrightarrow>
   countRunFunctions fs n = Inr (n + length (filter isRunFunction fs))"
  by (induction fs arbitrary: n) auto

lemma countRunFunctions_Inl:
  "\<exists>f \<in> set (filter isRunFunction fs). \<not> isVoid (returnType f) \<or> parameters f \<noteq> [] \<Longrightarrow>
   \<exists>e. countRunFunctions fs n = Inl e"
proof (induction fs arbitrary: n)
  case Nil
  then show ?case by simp
next
  case (Cons a fs)
  show ?case
  proof (cases "isRunFunction a \<and> (\<not> isVoid (returnType a) \<or> parameters a \<noteq> [])")
    case True
    then show ?thesis by auto
  next
    case False
    with Cons.prems have "\<exists>f \<in> set (filter isRunFunction fs).
                            \<not> isVoid (returnType f) \<or> parameters f \<noteq> []"
      by (auto split: if_splits)
    from Cons.IH [OF this] False show ?thesis by simp
  qed
qed

lemma checkOverallStructureOfProcessor_ok:
  assumes "kind m \<in> {Processor, Graph}"
  shows "checkOverallStructureOfProcessor m = Inr () \<longleftrightarrow> \<not> violatesStructure m"
proof (cases "\<forall>f \<in> set (filter isRunFunction (getFunctions m)).
                 isVoid (returnType f) \<and> parameters f = []")
  case True
  from countRunFunctions_Inr [OF True, of 0] True assms show ?thesis
    unfolding checkOverallStructureOfProcessor_def violatesStructure_def runFunctions_def
    by auto
next
  case False
  then have "\<exists>f \<in> set (filter isRunFunction (getFunctions m)).
               \<not> isVoid (returnType f) \<or> parameters f \<noteq> []" by blast
  from countRunFunctions_Inl [OF this, of 0] False assms show ?thesis
    unfolding checkOverallStructureOfProcessor_def violatesStructure_def runFunctions_def
    by auto
qed

lemma violatesStructure_Namespace: "kind m = Namespace \<Longrightarrow> \<not> violatesStructure m"
  by (simp add: violatesStructure_def)

lemma checkOverallStructure_iff:
  "(checkOverallStructure m = Inr () \<longleftrightarrow> (\<forall>p \<in> set (allModules m). \<not> violatesStructure p))"
  "(checkSubModules ms = Inr () \<longleftrightarrow> (\<forall>m \<in> set ms. \<forall>p \<in> set (allModules m). \<not> violatesStructure p))"
proof (induction m and ms rule: checkOverallStructure_checkSubModules.induct)
  case (1 k c outs fs subs)
  let ?m = "ModuleBase k c outs fs subs"
  show ?case
  proof (cases "k = Processor \<or> k = Graph")
    case True
    then have "kind ?m \<in> {Processor, Graph}" by auto
    from checkOverallStructureOfProcessor_ok [OF this] True 1 show ?thesis
      by (cases "checkOverallStructureOfProcessor ?m") auto
  next
    case False
    then have "kind ?m = Namespace" by (cases k) auto
    from violatesStructure_Namespace [OF this] False 1 show ?thesis by auto
  qed
next
  case 2
  show ?case by simp
next
  case (3 m ms)
  then show ?case by (cases "checkOverallStructure m") auto
qed

text \<open>
  Claim C7. The pre-resolution sanity check raises an error if and only if some module of
  the tree is a processor or graph without an output endpoint, or a processor with no run
  function, with more than one, with a run function that is not void, or with a run
  function that declares parameters. A tree without such a module passes: the check
  returns normally, and it returns nothing but that, the tree being left as it is.
\<close>

theorem runPreResolution_error_iff:
  "((\<exists>e. runPreResolution m = Inl e) \<longleftrightarrow> (\<exists>p \<in> set (allModules m). violatesStructure p))
   \<and> ((\<forall>p \<in> set (allModules m). \<not> violatesStructure p) \<longrightarrow> runPreResolution m = Inr ())"
proof -
  have ok: "runPreResolution m = Inr () \<longleftrightarrow> (\<forall>p \<in> set (allModules m). \<not> violatesStructure p)"
    unfolding runPreResolution_def by (rule checkOverallStructure_iff(1))
  have "(\<exists>e. runPreResolution m = Inl e) \<longleftrightarrow> runPreResolution m \<noteq> Inr ()"
    by (cases "runPreResolution m") auto
  with ok show ?thesis by blast
qed

definition helloProcessor :: ModuleBase where
  "helloProcessor =
     ModuleBase Namespace 0 [] []
       [ModuleBase Processor 1 [''out'']
          [\<lparr> fid = 0, fcontext = 2, fname = ''run'', returnType = mkType (primitive prim_void),
             parameters = [], genericWildcards = [], genericSpecialisations = [],
             orginalGenericFunction = None, isRunFunction = True, block = Some [] \<rparr>] []]"

theorem runPreResolution_error_iff_witness:
  "\<not> (\<exists>p \<in> set (allModules helloProcessor). violatesStructure p)
   \<and> runPreResolution helloProcessor = Inr ()"
proof -
  have h: "\<forall>p \<in> set (allModules helloProcessor). \<not> violatesStructure p"
    by (simp add: helloProcessor_def violatesStructure_def runFunctions_def isVoid_def mkType_def)
  with runPreResolution_error_iff [of helloProcessor] show ?thesis by blast
qed

section \<open>Function resolution\<close>

text \<open>
  \<^verbatim>\<open>TypeRules\<close> is declared outside the sources at hand, so its two predicates are
  parameters of the model: \<open>canPassAsArgumentTo target source mustBeExactMatch\<close> and
  \<open>canSilentlyCastTo target source\<close>.
\<close>

record TypeRules =
  canPassAsArgumentTo :: "Type \<Rightarrow> Type \<Rightarrow> bool \<Rightarrow> bool"
  canSilentlyCastTo :: "Type \<Rightarrow> Type \<Rightarrow> bool"

subsection \<open>Calls and candidates\<close>

text \<open>
  An argument of a call, or an operand of an operator, as the answers of the AST queries
  the passes make on it: its context, what kind of node it is, \<^verbatim>\<open>isResolved()\<close>,
  \<^verbatim>\<open>isResolvedAsValue\<close>, \<^verbatim>\<open>getResultType()\<close>, the text of a string-literal constant, and
  \<^verbatim>\<open>getAsConstant()\<close>.
\<close>

datatype ArgumentNode = isOutputEndpointRef | isProcessorRef | isOtherNode

record Argument =
  acontext :: CodeLocation
  argNode :: ArgumentNode
  argIsResolved :: bool
  argIsResolvedAsValue :: bool
  argResultType :: Type
  argStringLiteral :: "string option"
  argConstant :: "Value option"

datatype NameOrType =
    resolvedAsType Type
  | qualifiedIdentifier CodeLocation "string list"
  | otherNameOrType

text \<open>
  \<^verbatim>\<open>AST::CallOrCast\<close>. A null argument list is the empty list. \<open>parentFunctionIsRun\<close> is
  \<^verbatim>\<open>getParentFunction()->isRunFunction()\<close>.
\<close>

record CallOrCast =
  ccontext :: CodeLocation
  nameOrType :: NameOrType
  arguments :: "Argument list"
  isMethodCall :: bool
  parentFunctionIsRun :: bool

definition areAllArgumentsResolved :: "CallOrCast \<Rightarrow> bool" where
  "areAllArgumentsResolved call = list_all argIsResolved (arguments call)"

definition getArgumentTypes :: "CallOrCast \<Rightarrow> Type list" where
  "getArgumentTypes call = map argResultType (arguments call)"

definition getNumArguments :: "CallOrCast \<Rightarrow> nat" where
  "getNumArguments call = length (arguments call)"

text \<open>What a visit of a \<^verbatim>\<open>CallOrCast\<close> returns in its place.\<close>

datatype Replacement =
    sameCall
  | TypeCast CodeLocation Type "Argument list"
  | AdvanceClock CodeLocation
  | StaticAssertion CodeLocation Argument string
  | ArrayElementRef CodeLocation
  | FunctionCall CodeLocation Function "Argument list" bool

text \<open>\<^verbatim>\<open>FunctionResolver::PossibleFunction\<close>: a candidate with its three flags.\<close>

record PossibleFunction =
  pfunction :: Function
  isImpossible :: bool
  requiresCast :: bool
  requiresGeneric :: bool

definition isExactMatch :: "PossibleFunction \<Rightarrow> bool" where
  "isExactMatch p = (\<not> (isImpossible p \<or> requiresCast p \<or> requiresGeneric p))"

text \<open>
  The constructor's loop over the argument types. The search that feeds it asks for
  functions with as many parameters as there are arguments; should the parameters run
  out first, the loop of the model stops there.
\<close>

fun classifyArguments ::
  "TypeRules \<Rightarrow> Function \<Rightarrow> VariableDeclaration list \<Rightarrow> Type list \<Rightarrow> PossibleFunction
   \<Rightarrow> PossibleFunction" where
  "classifyArguments R f (p # ps) (argType # argTypes) pf =
     (if isGeneric f \<and> \<not> isResolved p
      then classifyArguments R f ps argTypes (pf\<lparr>requiresGeneric := True\<rparr>)
      else if canPassAsArgumentTo R (getType p) argType True
      then classifyArguments R f ps argTypes pf
      else if \<not> canPassAsArgumentTo R (getType p) argType False
      then classifyArguments R f ps argTypes (pf\<lparr>isImpossible := True, requiresCast := True\<rparr>)
      else classifyArguments R f ps argTypes (pf\<lparr>requiresCast := True\<rparr>))"
| "classifyArguments R f _ _ pf = pf"

definition makePossibleFunction :: "TypeRules \<Rightarrow> Function \<Rightarrow> Type list \<Rightarrow> PossibleFunction" where
  "makePossibleFunction R f argTypes =
     classifyArguments R f (parameters f) argTypes
       \<lparr> pfunction = f, isImpossible = False, requiresCast = False, requiresGeneric = False \<rparr>"

definition countNumberOfExactMatches :: "PossibleFunction list \<Rightarrow> nat" where
  "countNumberOfExactMatches matches = length (filter isExactMatch matches)"

definition countNumberOfMatchesWithCast :: "PossibleFunction list \<Rightarrow> nat" where
  "countNumberOfMatchesWithCast matches =
     length (filter (\<lambda>f. requiresCast f \<and> \<not> isImpossible f) matches)"

subsection \<open>The candidate search\<close>

text \<open>
  \<^verbatim>\<open>AST::Scope::performFullNameSearch\<close> is declared outside the sources at hand: the items
  it finds for a path are a parameter, \<open>search\<close>. An item is a function or something else.
\<close>

datatype ASTObject = functionItem Function | otherItem string

text \<open>The name of the intrinsics namespace, \<^verbatim>\<open>getIntrinsicsNamespaceName()\<close>, as a path.\<close>

definition isUnqualified :: "string list \<Rightarrow> bool" where
  "isUnqualified path = (length path = 1)"

definition isUnqualifiedName :: "string list \<Rightarrow> string \<Rightarrow> bool" where
  "isUnqualifiedName path n = (path = [n])"

fun keepCandidates :: "TypeRules \<Rightarrow> Type list \<Rightarrow> ASTObject list \<Rightarrow> PossibleFunction list" where
  "keepCandidates R argTypes [] = []"
| "keepCandidates R argTypes (functionItem f # items) =
     (if orginalGenericFunction f = None
      then makePossibleFunction R f argTypes # keepCandidates R argTypes items
      else keepCandidates R argTypes items)"
| "keepCandidates R argTypes (otherItem _ # items) = keepCandidates R argTypes items"

text \<open>
  \<^verbatim>\<open>FunctionResolver::findAllPossibleFunctions\<close>: one search along the scope chain, a
  second one in the intrinsics namespace when the name is unqualified (both fill the same
  list of found items), then the loop that keeps the functions without a back-link.
  \<open>search path numArgs\<close> gives the items a full name search for functions finds.
\<close>

definition findAllPossibleFunctions ::
  "TypeRules \<Rightarrow> (string list \<Rightarrow> nat \<Rightarrow> ASTObject list) \<Rightarrow> string list \<Rightarrow> CallOrCast
   \<Rightarrow> string list \<Rightarrow> PossibleFunction list" where
  "findAllPossibleFunctions R search intrinsicsNamespacePath call path =
     (let argTypes = getArgumentTypes call;
          itemsFound = search path (length argTypes);
          itemsFound' = (if isUnqualified path
                         then itemsFound @ search (intrinsicsNamespacePath @ [last path]) (length argTypes)
                         else itemsFound)
      in keepCandidates R argTypes itemsFound')"

subsection \<open>The visit of a call\<close>

text \<open>
  The state a resolver visitor works on: its failure counter, the function list of the
  module that holds the generic functions, and the arena's next free identity.
\<close>

record ResolverState =
  numFails :: nat
  scopeFunctions :: "Function list"
  nextFid :: nat

text \<open>
  \<^verbatim>\<open>createCallToGenericFunction\<close> is virtual: the plain function resolver counts a failure
  and returns null, the generic function resolver specialises. The visit takes it as an
  argument, together with the answer of \<^verbatim>\<open>canResolveGenerics()\<close>.
\<close>

type_synonym GenericCallCreator =
  "CallOrCast \<Rightarrow> Function \<Rightarrow> bool \<Rightarrow> ResolverState \<Rightarrow> CompileMessage + (Replacement option \<times> ResolverState)"

definition deferGenericCall :: GenericCallCreator where
  "deferGenericCall call genericFunction shouldIgnoreErrors s =
     Inr (None, s\<lparr>numFails := numFails s + 1\<rparr>)"

definition resolveFunction ::
  "GenericCallCreator \<Rightarrow> PossibleFunction \<Rightarrow> CallOrCast \<Rightarrow> bool \<Rightarrow> ResolverState
   \<Rightarrow> CompileMessage + (Replacement option \<times> ResolverState)" where
  "resolveFunction createCallToGenericFunction f call ignoreErrorsInGenerics s =
     (if isRunFunction (pfunction f) then Inl (cannotCallRunFunction, ccontext call)
      else if isGeneric (pfunction f)
      then createCallToGenericFunction call (pfunction f) ignoreErrorsInGenerics s
      else Inr (Some (FunctionCall (ccontext call) (pfunction f) (arguments call) False), s))"

text \<open>\<^verbatim>\<open>if (auto resolved = resolveFunction (...)) return resolved; return call;\<close>\<close>

definition resolvedOrCall ::
  "CompileMessage + (Replacement option \<times> ResolverState) \<Rightarrow> CompileMessage + (Replacement \<times> ResolverState)" where
  "resolvedOrCall r =
     (case r of
        Inl e \<Rightarrow> Inl e
      | Inr (Some resolved, s) \<Rightarrow> Inr (resolved, s)
      | Inr (None, s) \<Rightarrow> Inr (sameCall, s))"

text \<open>
  The loop that tries every candidate that needs a generic. \<open>None\<close> in the result is the
  early \<^verbatim>\<open>return call\<close> of a resolver that cannot resolve generics.
\<close>

fun collectMatchingGenerics ::
  "GenericCallCreator \<Rightarrow> bool \<Rightarrow> CallOrCast \<Rightarrow> PossibleFunction list \<Rightarrow> Replacement list
   \<Rightarrow> ResolverState \<Rightarrow> CompileMessage + (Replacement list option \<times> ResolverState)" where
  "collectMatchingGenerics create canResolveGenerics call [] matchingGenerics s =
     Inr (Some matchingGenerics, s)"
| "collectMatchingGenerics create canResolveGenerics call (f # fs) matchingGenerics s =
     (if \<not> isImpossible f \<and> requiresGeneric f
      then (case resolveFunction create f call True s of
              Inl e \<Rightarrow> Inl e
            | Inr (Some e, s') \<Rightarrow>
                collectMatchingGenerics create canResolveGenerics call fs (matchingGenerics @ [e]) s'
            | Inr (None, s') \<Rightarrow>
                if \<not> canResolveGenerics then Inr (None, s')
                else collectMatchingGenerics create canResolveGenerics call fs matchingGenerics s')
      else collectMatchingGenerics create canResolveGenerics call fs matchingGenerics s)"

text \<open>
  The diagnostics the visit calls that live outside the sources at hand or need the whole
  scope tree: the message \<^verbatim>\<open>throwErrorForUnknownFunction\<close> ends with (it always throws),
  \<^verbatim>\<open>SanityCheckPass::expectSilentCastPossible\<close> and
  \<^verbatim>\<open>SanityCheckPass::checkForDuplicateFunctions\<close> (\<open>None\<close> when they return normally), and
  \<^verbatim>\<open>createAtCall\<close>, which needs the endpoint declarations.
\<close>

record Diagnostics =
  unknownFunctionMessage :: "CallOrCast \<Rightarrow> CompileMessage"
  expectSilentCastPossible :: "CodeLocation \<Rightarrow> Type \<Rightarrow> Argument \<Rightarrow> CompileMessage option"
  checkForDuplicateFunctions :: "Function list \<Rightarrow> CompileMessage option"
  createAtCall :: "CallOrCast \<Rightarrow> CompileMessage + Replacement option"

fun firstMessage :: "CompileMessage option list \<Rightarrow> CompileMessage option" where
  "firstMessage [] = None"
| "firstMessage (None # ms) = firstMessage ms"
| "firstMessage (Some e # ms) = Some e"

text \<open>The part of the visit that runs when errors are not ignored and nothing was bound.\<close>

definition reportFailedCall ::
  "Diagnostics \<Rightarrow> CallOrCast \<Rightarrow> PossibleFunction list \<Rightarrow> nat \<Rightarrow> nat \<Rightarrow> CompileMessage option" where
  "reportFailedCall D call possibles exactMatches numMatchingGenerics =
     (let totalMatches = length possibles in
      if totalMatches = 0 then Some (unknownFunctionMessage D call)
      else
        let possibleWithCast = countNumberOfMatchesWithCast possibles;
            noMatch =
              (if exactMatches + possibleWithCast = 0
               then (case (if totalMatches = 1 \<and> \<not> requiresGeneric (hd possibles)
                           then firstMessage
                                  (map (\<lambda>(paramType, arg). expectSilentCastPossible D (acontext arg) paramType arg)
                                     (zip (map getType (parameters (pfunction (hd possibles))))
                                          (arguments call)))
                           else None) of
                       Some e \<Rightarrow> Some e
                     | None \<Rightarrow>
                         if totalMatches = 0 \<or> numMatchingGenerics \<le> 1
                         then Some (noMatchForFunctionCall, ccontext call) else None)
               else None)
        in case noMatch of
             Some e \<Rightarrow> Some e
           | None \<Rightarrow>
               if totalMatches > 1 \<or> numMatchingGenerics > 1
               then (case checkForDuplicateFunctions D (map pfunction possibles) of
                       Some e \<Rightarrow> Some e
                     | None \<Rightarrow> Some (ambiguousFunctionCall, ccontext call))
               else None)"

text \<open>
  The visit from \<^verbatim>\<open>findAllPossibleFunctions\<close> on: the candidates are given. The three
  binding rules come in the order of the source: one single candidate that is not
  impossible; one exact match; one matching generic.
\<close>

definition resolveCandidates ::
  "Diagnostics \<Rightarrow> GenericCallCreator \<Rightarrow> bool \<Rightarrow> bool \<Rightarrow> CallOrCast \<Rightarrow> PossibleFunction list
   \<Rightarrow> ResolverState \<Rightarrow> CompileMessage + (Replacement \<times> ResolverState)" where
  "resolveCandidates D create canResolveGenerics ignoreErrors call possibles s =
     (let totalMatches = length possibles in
      if totalMatches = 1 \<and> \<not> isImpossible (hd possibles)
      then resolvedOrCall (resolveFunction create (hd possibles) call ignoreErrors s)
      else
        let exactMatches = countNumberOfExactMatches possibles in
        if exactMatches = 1
        then (case find isExactMatch possibles of
                Some f \<Rightarrow> resolvedOrCall (resolveFunction create f call ignoreErrors s)
              | None \<Rightarrow> Inl (otherError ''SOUL_ASSERT_FALSE'', ccontext call))
        else
          (case collectMatchingGenerics create canResolveGenerics call possibles [] s of
             Inl e \<Rightarrow> Inl e
           | Inr (None, s') \<Rightarrow> Inr (sameCall, s')
           | Inr (Some matchingGenerics, s') \<Rightarrow>
               if length matchingGenerics = 1 then Inr (hd matchingGenerics, s')
               else
                 (case (if \<not> ignoreErrors
                        then reportFailedCall D call possibles exactMatches (length matchingGenerics)
                        else None) of
                    Some e \<Rightarrow> Inl e
                  | None \<Rightarrow> Inr (sameCall, s'\<lparr>numFails := numFails s' + 1\<rparr>))))"

text \<open>The two built-in calls that are created in place.\<close>

definition createAdvanceCall :: "CallOrCast \<Rightarrow> CompileMessage + Replacement" where
  "createAdvanceCall c =
     (if isMethodCall c then Inl (advanceIsNotAMethod, ccontext c)
      else if getNumArguments c \<noteq> 0 then Inl (advanceHasNoArgs, ccontext c)
      else if \<not> parentFunctionIsRun c then Inl (advanceMustBeCalledInRun, ccontext c)
      else Inr (AdvanceClock (ccontext c)))"

definition getErrorMessageArgument :: "Argument \<Rightarrow> CompileMessage + string" where
  "getErrorMessageArgument e =
     (case argStringLiteral e of
        Some text \<Rightarrow> Inr text
      | None \<Rightarrow> Inl (expectedStringLiteralAsArg2, acontext e))"

definition createStaticAssert :: "CallOrCast \<Rightarrow> CompileMessage + Replacement" where
  "createStaticAssert c =
     (let numArgs = getNumArguments c in
      if numArgs \<noteq> 1 \<and> numArgs \<noteq> 2 then Inl (expected1or2Args, ccontext c)
      else if numArgs = 2
      then (case getErrorMessageArgument (arguments c ! 1) of
              Inl e \<Rightarrow> Inl e
            | Inr error \<Rightarrow> Inr (StaticAssertion (ccontext c) (hd (arguments c)) error))
      else Inr (StaticAssertion (ccontext c) (hd (arguments c)) ''static_assert failed''))"

text \<open>\<^verbatim>\<open>SanityCheckPass::throwErrorIfNotReadableValue\<close> on an argument.\<close>

definition throwErrorIfNotReadableValue :: "Argument \<Rightarrow> CompileMessage option" where
  "throwErrorIfNotReadableValue e =
     (if \<not> argIsResolvedAsValue e
      then (case argNode e of
              isOutputEndpointRef \<Rightarrow> Some (cannotReadFromOutput, acontext e)
            | isProcessorRef \<Rightarrow> Some (cannotUseProcessorAsOutput, acontext e)
            | isOtherNode \<Rightarrow> Some (expectedValue, acontext e))
      else None)"

text \<open>
  The loop over the arguments before the search: \<open>Some (Inr ())\<close> is the \<^verbatim>\<open>return call\<close>
  taken when errors are ignored, \<open>Some (Inl e)\<close> a throw, \<open>None\<close> the normal end of the loop.
\<close>

fun checkArgumentsAreValues :: "bool \<Rightarrow> Argument list \<Rightarrow> (CompileMessage + unit) option" where
  "checkArgumentsAreValues ignoreErrors [] = None"
| "checkArgumentsAreValues ignoreErrors (arg # args) =
     (if \<not> argIsResolvedAsValue arg
      then (if ignoreErrors then Some (Inr ())
            else (case throwErrorIfNotReadableValue arg of
                    Some e \<Rightarrow> Some (Inl e)
                  | None \<Rightarrow> checkArgumentsAreValues ignoreErrors args))
      else checkArgumentsAreValues ignoreErrors args)"

definition failCall :: "ResolverState \<Rightarrow> CompileMessage + (Replacement \<times> ResolverState)" where
  "failCall s = Inr (sameCall, s\<lparr>numFails := numFails s + 1\<rparr>)"

text \<open>
  \<^verbatim>\<open>FunctionResolver::visit (AST::CallOrCast&)\<close>, after the visit of the children. A callee
  that is a resolved type makes the call a cast (\<^verbatim>\<open>convertToCast\<close>).
\<close>

definition visitCallOrCast ::
  "TypeRules \<Rightarrow> (string list \<Rightarrow> nat \<Rightarrow> ASTObject list) \<Rightarrow> string list \<Rightarrow> Diagnostics
   \<Rightarrow> GenericCallCreator \<Rightarrow> bool \<Rightarrow> bool \<Rightarrow> CallOrCast \<Rightarrow> ResolverState
   \<Rightarrow> CompileMessage + (Replacement \<times> ResolverState)" where
  "visitCallOrCast R search intrinsicsNamespacePath D create canResolveGenerics ignoreErrors call s =
     (case nameOrType call of
        resolvedAsType t \<Rightarrow> Inr (TypeCast (ccontext call) t (arguments call), s)
      | otherNameOrType \<Rightarrow> failCall s
      | qualifiedIdentifier c path \<Rightarrow>
          if \<not> areAllArgumentsResolved call then failCall s
          else if isUnqualifiedName path ''advance''
          then (case createAdvanceCall call of Inl e \<Rightarrow> Inl e | Inr r \<Rightarrow> Inr (r, s))
          else if isUnqualifiedName path ''static_assert''
          then (case createStaticAssert call of Inl e \<Rightarrow> Inl e | Inr r \<Rightarrow> Inr (r, s))
          else
            (case (if isUnqualifiedName path ''at'' then createAtCall D call else Inr None) of
               Inl e \<Rightarrow> Inl e
             | Inr (Some atCall) \<Rightarrow> Inr (atCall, s)
             | Inr None \<Rightarrow>
                 (case checkArgumentsAreValues ignoreErrors (arguments call) of
                    Some (Inl e) \<Rightarrow> Inl e
                  | Some (Inr _) \<Rightarrow> Inr (sameCall, s)
                  | None \<Rightarrow>
                      resolveCandidates D create canResolveGenerics ignoreErrors call
                        (findAllPossibleFunctions R search intrinsicsNamespacePath call path) s)))"

text \<open>
  An instance of the parameters for concrete runs: a type passes exactly to itself, and
  \<^verbatim>\<open>int32\<close> passes silently to the two floating-point types.
\<close>

definition simpleTypeRules :: TypeRules where
  "simpleTypeRules =
     \<lparr> canPassAsArgumentTo = (\<lambda>target source mustBeExactMatch.
          target = source
          \<or> (\<not> mustBeExactMatch \<and> source = mkType (primitive int32)
              \<and> (target = mkType (primitive float32) \<or> target = mkType (primitive float64)))),
       canSilentlyCastTo = (\<lambda>target source.
          target = source
          \<or> (source = mkType (primitive int32)
              \<and> (target = mkType (primitive float32) \<or> target = mkType (primitive float64)))) \<rparr>"

definition quietDiagnostics :: Diagnostics where
  "quietDiagnostics =
     \<lparr> unknownFunctionMessage = (\<lambda>call. (otherError ''unknownFunction'', ccontext call)),
       expectSilentCastPossible = (\<lambda>c t a. None),
       checkForDuplicateFunctions = (\<lambda>fs. None),
       createAtCall = (\<lambda>call. Inr None) \<rparr>"

definition mkParameter :: "string \<Rightarrow> Type \<Rightarrow> VariableDeclaration" where
  "mkParameter n t =
     \<lparr> vcontext = 0, vname = n, declaredType = None, initialValue = None, resolvedType = Some t,
       isExternal = False, numReads = 0, numWrites = 0 \<rparr>"

definition mkFunction :: "nat \<Rightarrow> string \<Rightarrow> VariableDeclaration list \<Rightarrow> Function" where
  "mkFunction i n ps =
     \<lparr> fid = i, fcontext = 0, fname = n, returnType = mkType (primitive prim_void),
       parameters = ps, genericWildcards = [], genericSpecialisations = [],
       orginalGenericFunction = None, isRunFunction = False, block = Some [] \<rparr>"

definition mkArgument :: "CodeLocation \<Rightarrow> Type \<Rightarrow> Argument" where
  "mkArgument c t =
     \<lparr> acontext = c, argNode = isOtherNode, argIsResolved = True, argIsResolvedAsValue = True,
       argResultType = t, argStringLiteral = None, argConstant = None \<rparr>"

text \<open>
  \<^verbatim>\<open>void f (float32)\<close> and \<^verbatim>\<open>void f (string)\<close> in scope, and the call \<^verbatim>\<open>f (1)\<close>.
\<close>

definition f_float32 :: Function where
  "f_float32 = mkFunction 1 ''f'' [mkParameter ''x'' (mkType (primitive float32))]"

definition f_string :: Function where
  "f_string = mkFunction 2 ''f'' [mkParameter ''x'' (mkType (primitive stringLiteral))]"

definition f_int32 :: Function where
  "f_int32 = mkFunction 3 ''f'' [mkParameter ''x'' (mkType (primitive int32))]"

definition call_f_1 :: CallOrCast where
  "call_f_1 =
     \<lparr> ccontext = 10, nameOrType = qualifiedIdentifier 10 [''f''],
       arguments = [mkArgument 11 (mkType (primitive int32))],
       isMethodCall = False, parentFunctionIsRun = False \<rparr>"

definition searchIn :: "Function list \<Rightarrow> string list \<Rightarrow> nat \<Rightarrow> ASTObject list" where
  "searchIn fs path numArgs =
     map functionItem
       (filter (\<lambda>f. [fname f] = path \<and> length (parameters f) = numArgs) fs)"

definition emptyState :: ResolverState where
  "emptyState = \<lparr> numFails = 0, scopeFunctions = [], nextFid = 100 \<rparr>"

subsection \<open>Binding rules\<close>

text \<open>A path for the intrinsics namespace, for concrete runs.\<close>

definition ins :: "string list" where
  "ins = [''soul'', ''intrinsics'']"

definition exactCandidate :: PossibleFunction where
  "exactCandidate = makePossibleFunction simpleTypeRules f_int32 [mkType (primitive int32)]"

lemma find_unique:
  "length (filter P xs) = 1 \<Longrightarrow> p \<in> set xs \<Longrightarrow> P p \<Longrightarrow> find P xs = Some p"
proof (induction xs)
  case Nil
  then show ?case by simp
next
  case (Cons x xs)
  show ?case
  proof (cases "P x")
    case True
    with Cons.prems(1) have "filter P xs = []" by simp
    with Cons.prems(2,3) have "p = x" by (auto simp: filter_empty_conv)
    with True show ?thesis by simp
  next
    case False
    with Cons show ?thesis by auto
  qed
qed

lemma checkArgumentsAreValues_None:
  "list_all argIsResolvedAsValue args \<Longrightarrow> checkArgumentsAreValues ignoreErrors args = None"
  by (induction args) auto

lemma resolveFunction_plain:
  "\<not> isRunFunction (pfunction p) \<Longrightarrow> \<not> isGeneric (pfunction p) \<Longrightarrow>
   resolvedOrCall (resolveFunction create p call ignoreErrors s)
     = Inr (FunctionCall (ccontext call) (pfunction p) (arguments call) False, s)"
  by (simp add: resolveFunction_def resolvedOrCall_def)

lemma resolveCandidates_binds:
  assumes "\<not> isRunFunction (pfunction p)" and "\<not> isGeneric (pfunction p)"
    and "(possibles = [p] \<and> \<not> isImpossible p)
         \<or> (countNumberOfExactMatches possibles = 1 \<and> p \<in> set possibles \<and> isExactMatch p)"
  shows "resolveCandidates D create canResolveGenerics ignoreErrors call possibles s
           = Inr (FunctionCall (ccontext call) (pfunction p) (arguments call) False, s)"
proof (cases "length possibles = 1 \<and> \<not> isImpossible (hd possibles)")
  case True
  then obtain q where q: "possibles = [q]" by (cases possibles) auto
  with assms(3) have "q = p" by auto
  with q True assms(1,2) show ?thesis
    by (simp add: resolveCandidates_def resolveFunction_plain)
next
  case False
  with assms(3) have ex: "countNumberOfExactMatches possibles = 1" "p \<in> set possibles" "isExactMatch p"
    by auto
  then have "find isExactMatch possibles = Some p"
    by (simp add: countNumberOfExactMatches_def find_unique)
  with False ex(1) assms(1,2) show ?thesis
    by (auto simp add: resolveCandidates_def resolveFunction_plain Let_def)
qed

text \<open>
  Claim C1, as amended. For a call whose callee is a name other than the built-ins and
  whose arguments are all resolved values, the candidates found in the scope chain (and
  in the intrinsics namespace for an unqualified name) carry the flags impossible,
  requires-cast and requires-generic, an exact match having none of them. If exactly one
  candidate is found and it is not impossible, the call is replaced by a call of that
  function; otherwise, if exactly one candidate is an exact match, by a call of that one.
  Both hold for a candidate that is neither the run function nor generic.
\<close>

theorem visitCallOrCast_binding:
  assumes "nameOrType call = qualifiedIdentifier c path"
    and "areAllArgumentsResolved call"
    and "list_all argIsResolvedAsValue (arguments call)"
    and "\<not> isUnqualifiedName path ''advance''"
    and "\<not> isUnqualifiedName path ''static_assert''"
    and "isUnqualifiedName path ''at'' \<Longrightarrow> createAtCall D call = Inr None"
    and "possibles = findAllPossibleFunctions R search intrinsicsNamespacePath call path"
    and "\<not> isRunFunction (pfunction p)" and "\<not> isGeneric (pfunction p)"
    and "(possibles = [p] \<and> \<not> isImpossible p)
         \<or> (countNumberOfExactMatches possibles = 1 \<and> p \<in> set possibles \<and> isExactMatch p)"
  shows "visitCallOrCast R search intrinsicsNamespacePath D create canResolveGenerics ignoreErrors call s
           = Inr (FunctionCall (ccontext call) (pfunction p) (arguments call) False, s)"
proof -
  have at: "(if isUnqualifiedName path ''at'' then createAtCall D call else Inr None) = Inr None"
    using assms(6) by simp
  show ?thesis
    unfolding visitCallOrCast_def
    using assms(1-5) at checkArgumentsAreValues_None [OF assms(3)]
      resolveCandidates_binds [OF assms(8,9,10)] assms(7)
    by simp
qed

theorem visitCallOrCast_binding_witness:
  "countNumberOfExactMatches
     (findAllPossibleFunctions simpleTypeRules (searchIn [f_float32, f_int32]) ins call_f_1 [''f'']) = 1
   \<and> visitCallOrCast simpleTypeRules (searchIn [f_float32, f_int32]) ins quietDiagnostics
        deferGenericCall False True call_f_1 emptyState
       = Inr (FunctionCall 10 f_int32 (arguments call_f_1) False, emptyState)"
proof -
  let ?possibles = "findAllPossibleFunctions simpleTypeRules (searchIn [f_float32, f_int32]) ins call_f_1 [''f'']"
  have h1: "nameOrType call_f_1 = qualifiedIdentifier 10 [''f'']" by (simp add: call_f_1_def)
  have h2: "areAllArgumentsResolved call_f_1" by code_simp
  have h3: "list_all argIsResolvedAsValue (arguments call_f_1)" by code_simp
  have h4: "\<not> isUnqualifiedName [''f''] ''advance''" by code_simp
  have h5: "\<not> isUnqualifiedName [''f''] ''static_assert''" by code_simp
  have h6: "isUnqualifiedName [''f''] ''at'' \<Longrightarrow> createAtCall quietDiagnostics call_f_1 = Inr None"
    by (simp add: quietDiagnostics_def)
  have h8: "\<not> isRunFunction (pfunction exactCandidate)" by code_simp
  have h9: "\<not> isGeneric (pfunction exactCandidate)" by code_simp
  have c: "countNumberOfExactMatches ?possibles = 1" by code_simp
  have m: "exactCandidate \<in> set ?possibles" by code_simp
  have e: "isExactMatch exactCandidate" by code_simp
  have f: "pfunction exactCandidate = f_int32" by code_simp
  have cc: "ccontext call_f_1 = 10" by code_simp
  from c m e have h10: "(?possibles = [exactCandidate] \<and> \<not> isImpossible exactCandidate)
         \<or> (countNumberOfExactMatches ?possibles = 1 \<and> exactCandidate \<in> set ?possibles
             \<and> isExactMatch exactCandidate)" by blast
  from visitCallOrCast_binding [OF h1 h2 h3 h4 h5 h6 refl h8 h9 h10, of deferGenericCall False True emptyState]
    c f cc
  show ?thesis by simp
qed

text \<open>
  The claim as first stated binds whenever exactly one candidate is not impossible. With
  \<^verbatim>\<open>f (float32)\<close> and \<^verbatim>\<open>f (string)\<close> in scope the call \<^verbatim>\<open>f (1)\<close> has one such candidate out
  of two; the visit leaves the call as it is and counts a failure, and reports an
  ambiguous call once errors are no longer ignored.
\<close>

theorem single_possible_candidate_of_two_not_bound:
  "length (filter (\<lambda>q. \<not> isImpossible q)
       (findAllPossibleFunctions simpleTypeRules (searchIn [f_float32, f_string]) ins call_f_1 [''f''])) = 1
   \<and> visitCallOrCast simpleTypeRules (searchIn [f_float32, f_string]) ins quietDiagnostics
        deferGenericCall False True call_f_1 emptyState = Inr (sameCall, emptyState\<lparr>numFails := 1\<rparr>)
   \<and> visitCallOrCast simpleTypeRules (searchIn [f_float32, f_string]) ins quietDiagnostics
        deferGenericCall False False call_f_1 emptyState = Inl (ambiguousFunctionCall, 10)"
  by code_simp


subsection \<open>Specialised clones are not candidates\<close>

fun isSpecialisedClone :: "ASTObject \<Rightarrow> bool" where
  "isSpecialisedClone (functionItem f) = (orginalGenericFunction f \<noteq> None)"
| "isSpecialisedClone (otherItem _) = False"

lemma pfunction_classifyArguments:
  "pfunction (classifyArguments R f ps argTypes pf) = pfunction pf"
  by (induction R f ps argTypes pf rule: classifyArguments.induct) auto

lemma pfunction_makePossibleFunction: "pfunction (makePossibleFunction R f argTypes) = f"
  by (simp add: makePossibleFunction_def pfunction_classifyArguments)

lemma keepCandidates_no_backlink:
  "p \<in> set (keepCandidates R argTypes items) \<Longrightarrow> orginalGenericFunction (pfunction p) = None"
  by (induction R argTypes items rule: keepCandidates.induct)
     (auto simp: pfunction_makePossibleFunction split: if_splits)

lemma keepCandidates_append:
  "keepCandidates R argTypes (xs @ ys) = keepCandidates R argTypes xs @ keepCandidates R argTypes ys"
  by (induction R argTypes xs rule: keepCandidates.induct) auto

lemma keepCandidates_filter:
  "keepCandidates R argTypes (filter (\<lambda>i. \<not> isSpecialisedClone i) items) = keepCandidates R argTypes items"
  by (induction R argTypes items rule: keepCandidates.induct) auto

text \<open>
  Claim C10. Every candidate of the overload search has a null back-link to an original
  generic function, and the candidates are the same whether or not the scopes searched
  hold specialised clones: a clone added during resolution takes no part in the
  resolution of any call.
\<close>

theorem findAllPossibleFunctions_skips_specialisations:
  "(\<forall>p \<in> set (findAllPossibleFunctions R search intrinsicsNamespacePath call path).
       orginalGenericFunction (pfunction p) = None)
   \<and> findAllPossibleFunctions R (\<lambda>path numArgs. filter (\<lambda>i. \<not> isSpecialisedClone i) (search path numArgs))
         intrinsicsNamespacePath call path
       = findAllPossibleFunctions R search intrinsicsNamespacePath call path"
  by (auto simp: findAllPossibleFunctions_def Let_def keepCandidates_no_backlink
        keepCandidates_append keepCandidates_filter)


text \<open>A scope with a specialised clone of a generic function next to \<^verbatim>\<open>f (int32)\<close>.\<close>

definition f_clone :: Function where
  "f_clone = (mkFunction 4 ''f'' [mkParameter ''x'' (mkType (primitive int32))])
               \<lparr>orginalGenericFunction := Some 5\<rparr>"

theorem findAllPossibleFunctions_skips_specialisations_witness:
  "map (fid \<circ> pfunction)
     (findAllPossibleFunctions simpleTypeRules (searchIn [f_clone, f_int32]) ins call_f_1 [''f'']) = [3]
   \<and> list_all (\<lambda>p. orginalGenericFunction (pfunction p) = None)
        (findAllPossibleFunctions simpleTypeRules (searchIn [f_clone, f_int32]) ins call_f_1 [''f''])"
proof -
  have "map (fid \<circ> pfunction)
     (findAllPossibleFunctions simpleTypeRules (searchIn [f_clone, f_int32]) ins call_f_1 [''f'']) = [3]"
    by code_simp
  with findAllPossibleFunctions_skips_specialisations
         [of simpleTypeRules "searchIn [f_clone, f_int32]" ins call_f_1 "[''f'']"]
  show ?thesis by (simp add: list_all_iff)
qed

section \<open>Generic function specialisation\<close>

text \<open>
  \<^verbatim>\<open>GenericFunctionResolver::matchParameterAgainstWildcard\<close>: the declared shape of a
  parameter against the type of the caller's argument. The second component of the result
  is the in-out flag \<^verbatim>\<open>anyReferencesInvolved\<close>; an invalid type means no match.
\<close>

fun matchParameterAgainstWildcard :: "Expression \<Rightarrow> Type \<Rightarrow> string \<Rightarrow> bool \<Rightarrow> Type \<times> bool" where
  "matchParameterAgainstWildcard (QualifiedIdentifier c path) callerArgumentType wildcardToFind refs =
     (if isUnqualifiedName path wildcardToFind then (callerArgumentType, refs)
      else (mkType invalid, refs))"
| "matchParameterAgainstWildcard (TypeMetaFunction c op source) callerArgumentType wildcardToFind refs =
     (if op = makeConst
      then matchParameterAgainstWildcard source (removeConstIfPresent callerArgumentType) wildcardToFind refs
      else if op = makeReference
      then matchParameterAgainstWildcard source (removeReferenceIfPresent callerArgumentType) wildcardToFind True
      else (mkType invalid, refs))"
| "matchParameterAgainstWildcard (SubscriptWithBrackets c lhs rhs) callerArgumentType wildcardToFind refs =
     (if isArray callerArgumentType \<and> rhs = None
      then matchParameterAgainstWildcard lhs (getElementType callerArgumentType) wildcardToFind refs
      else if isFixedSizeArray callerArgumentType \<and> rhs \<noteq> None
      then (case Option.bind rhs getAsConstant of
              Some sizeConst \<Rightarrow>
                if isPrimitiveInteger sizeConst
                   \<and> getAsInt64 sizeConst = int (getArraySize callerArgumentType)
                then matchParameterAgainstWildcard lhs (getElementType callerArgumentType) wildcardToFind refs
                else (mkType invalid, refs)
            | None \<Rightarrow> (mkType invalid, refs))
      else (mkType invalid, refs))"
| "matchParameterAgainstWildcard (SubscriptWithChevrons c lhs rhs) callerArgumentType wildcardToFind refs =
     (if isVector callerArgumentType
      then (case getAsConstant rhs of
              Some sizeConst \<Rightarrow>
                if isPrimitiveInteger sizeConst
                   \<and> getAsInt64 sizeConst = int (getVectorSize callerArgumentType)
                then matchParameterAgainstWildcard lhs (getElementType callerArgumentType) wildcardToFind refs
                else (mkType invalid, refs)
            | None \<Rightarrow> (mkType invalid, refs))
      else (mkType invalid, refs))"
| "matchParameterAgainstWildcard _ callerArgumentType wildcardToFind refs = (mkType invalid, refs)"

text \<open>
  The loop over the parameters for one wildcard, in
  \<^verbatim>\<open>resolveGenericFunctionTypes\<close>. \<open>None\<close> is the exit taken when two parameters pin the
  wildcard to types that do not unify; otherwise the type found so far is returned
  (invalid when no parameter pins the wildcard).
\<close>

fun pinWildcard ::
  "TypeRules \<Rightarrow> string \<Rightarrow> (VariableDeclaration \<times> Type) list \<Rightarrow> Type \<Rightarrow> Type option" where
  "pinWildcard R wildcardName [] resolved = Some resolved"
| "pinWildcard R wildcardName ((p, callerArgumentType) # rest) resolved =
     (case declaredType p of
        None \<Rightarrow> pinWildcard R wildcardName rest resolved
      | Some paramType \<Rightarrow>
          (case matchParameterAgainstWildcard paramType callerArgumentType wildcardName False of
             (matched, anyReferencesInvolved) \<Rightarrow>
               if isValid matched
               then
                 (let newMatch = (if \<not> isReference matched then removeConstIfPresent matched
                                  else matched)
                  in if isValid resolved
                     then (if \<not> isIdentical newMatch resolved
                           then (if \<not> anyReferencesInvolved \<and> canSilentlyCastTo R newMatch resolved
                                 then pinWildcard R wildcardName rest newMatch
                                 else if anyReferencesInvolved \<or> \<not> canSilentlyCastTo R resolved newMatch
                                 then None
                                 else pinWildcard R wildcardName rest resolved)
                           else pinWildcard R wildcardName rest resolved)
                     else pinWildcard R wildcardName rest newMatch)
               else pinWildcard R wildcardName rest resolved))"

text \<open>
  The outer loop of \<^verbatim>\<open>resolveGenericFunctionTypes\<close>: the wildcards are taken from the
  back of the list; \<open>ws\<close> is what is left of the list, in the order it is consumed. The
  result is \<open>Inl\<close> for a thrown resolution error, \<open>Inr None\<close> for \<^verbatim>\<open>return false\<close> and
  \<open>Inr (Some f)\<close> for \<^verbatim>\<open>return true\<close> with the function as it has been updated.
\<close>

fun resolveWildcards ::
  "TypeRules \<Rightarrow> CallOrCast \<Rightarrow> Type list \<Rightarrow> bool \<Rightarrow> (string \<times> CodeLocation) list \<Rightarrow> Function
   \<Rightarrow> CompileMessage + Function option" where
  "resolveWildcards R call callerArgumentTypes shouldIgnoreErrors [] f = Inr (Some f)"
| "resolveWildcards R call callerArgumentTypes shouldIgnoreErrors (w # ws) f =
     (let f1 = f\<lparr>genericWildcards := butlast (genericWildcards f)\<rparr> in
      case pinWildcard R (fst w) (zip (parameters f1) callerArgumentTypes) (mkType invalid) of
        None \<Rightarrow>
          if \<not> shouldIgnoreErrors then Inl (failedToResolveGenericFunctionCall, ccontext call)
          else Inr None
      | Some pinned \<Rightarrow>
          if \<not> isValid pinned
          then (if \<not> shouldIgnoreErrors then Inl (failedToResolveGenericFunctionCall, ccontext call)
                else Inr None)
          else resolveWildcards R call callerArgumentTypes shouldIgnoreErrors ws
                 (f1\<lparr>genericSpecialisations := genericSpecialisations f1 @ [(fst w, pinned)]\<rparr>))"

definition resolveGenericFunctionTypes ::
  "TypeRules \<Rightarrow> CallOrCast \<Rightarrow> Function \<Rightarrow> Type list \<Rightarrow> bool \<Rightarrow> CompileMessage + Function option" where
  "resolveGenericFunctionTypes R call f callerArgumentTypes shouldIgnoreErrors =
     resolveWildcards R call callerArgumentTypes shouldIgnoreErrors (rev (genericWildcards f)) f"

text \<open>
  \<^verbatim>\<open>StructuralParser::cloneFunction\<close> parses the source text of the function again into
  the function list of its parent module: the new node is the declaration as parsed, at a
  fresh address, appended to the list. A generic function is never rewritten by the
  resolver, so the declaration as parsed is the generic function itself. (The source also
  clears the \<^verbatim>\<open>isFullyResolved\<close> flag of the parent module, which is not part of this state.)
\<close>

definition cloneFunction :: "Function \<Rightarrow> ResolverState \<Rightarrow> Function \<times> ResolverState" where
  "cloneFunction functionToClone s =
     (let newFunction = functionToClone\<lparr>fid := nextFid s\<rparr>
      in (newFunction, s\<lparr>scopeFunctions := scopeFunctions s @ [newFunction],
                          nextFid := nextFid s + 1\<rparr>))"

definition isSpecialisationOf :: "Function \<Rightarrow> string \<Rightarrow> Function \<Rightarrow> bool" where
  "isSpecialisationOf genericFunction specialisedFunctionName f =
     (fname f = specialisedFunctionName \<and> orginalGenericFunction f = Some (fid genericFunction))"

text \<open>
  \<^verbatim>\<open>GenericFunctionResolver::getOrCreateSpecialisedFunction\<close>. The function list holds
  references: the clone that \<^verbatim>\<open>resolveGenericFunctionTypes\<close> updates is the last element of
  the list, and \<^verbatim>\<open>removeItem\<close> takes it out again by its address.
\<close>

definition getOrCreateSpecialisedFunction ::
  "TypeRules \<Rightarrow> CallOrCast \<Rightarrow> Function \<Rightarrow> string \<Rightarrow> Type list \<Rightarrow> bool \<Rightarrow> ResolverState
   \<Rightarrow> CompileMessage + (Function option \<times> ResolverState)" where
  "getOrCreateSpecialisedFunction R call genericFunction specialisedFunctionName callerArgumentTypes
       shouldIgnoreErrors s =
     (case find (isSpecialisationOf genericFunction specialisedFunctionName) (scopeFunctions s) of
        Some f \<Rightarrow> Inr (Some f, s)
      | None \<Rightarrow>
          (case cloneFunction genericFunction s of
             (cloned, s1) \<Rightarrow>
               (let newFunction = cloned\<lparr>fname := specialisedFunctionName,
                                         orginalGenericFunction := Some (fid genericFunction)\<rparr>
                in case resolveGenericFunctionTypes R call newFunction callerArgumentTypes
                          shouldIgnoreErrors of
                     Inl e \<Rightarrow> Inl e
                   | Inr None \<Rightarrow>
                       Inr (None, s1\<lparr>scopeFunctions :=
                                       filter (\<lambda>f. fid f \<noteq> fid newFunction) (scopeFunctions s1)\<rparr>)
                   | Inr (Some resolved) \<Rightarrow>
                       Inr (Some resolved, s1\<lparr>scopeFunctions := scopeFunctions s @ [resolved]\<rparr>))))"

text \<open>
  \<^verbatim>\<open>GenericFunctionResolver::createCallToGenericFunction\<close>. The mangled suffix,
  \<^verbatim>\<open>call.getIDStringForArgumentTypes()\<close>, is computed outside the sources at hand from the
  argument types of the call: \<open>idString\<close> is a parameter.
\<close>

definition specialisedName :: "(Type list \<Rightarrow> string) \<Rightarrow> Function \<Rightarrow> CallOrCast \<Rightarrow> string" where
  "specialisedName idString genericFunction call =
     ''_'' @ fname genericFunction @ ''_specialised_'' @ idString (getArgumentTypes call)"

definition createCallToGenericFunction :: "TypeRules \<Rightarrow> (Type list \<Rightarrow> string) \<Rightarrow> GenericCallCreator" where
  "createCallToGenericFunction R idString call genericFunction shouldIgnoreErrors s =
     (case getOrCreateSpecialisedFunction R call genericFunction
             (specialisedName idString genericFunction call) (getArgumentTypes call)
             shouldIgnoreErrors s of
        Inl e \<Rightarrow> Inl e
      | Inr (Some newFunction, s') \<Rightarrow>
          Inr (Some (FunctionCall (ccontext call) newFunction (arguments call) (isMethodCall call)), s')
      | Inr (None, s') \<Rightarrow> Inr (None, s'))"


















section \<open>Lowering to HEART\<close>

subsection \<open>State variables\<close>

text \<open>
  Modelled from the spec: \<^verbatim>\<open>heart::Variable\<close> is declared outside the sources at hand;
  section 3 gives it a location, a type, a role and an annotation (the annotation is left
  out here).
\<close>

datatype Role = roleParameter | roleState | roleExternal | roleMutableLocal | roleConstLocal

record HeartVariable =
  hlocation :: CodeLocation
  htype :: Type
  hname :: string
  role :: Role

text \<open>What the builder is asked to emit for a local declaration.\<close>

datatype BuilderRequest =
    addZeroAssignment HeartVariable
  | visitWithDestination HeartVariable Expression

text \<open>
  The members of \<^verbatim>\<open>HEARTGenerator\<close> that the visit of a variable declaration reads and
  writes: whether a source graph is set, the flag \<^verbatim>\<open>parsingStateVariables\<close>, the state
  variables of the target module, the link from each AST variable (by name) to its
  generated variable, and the requests made to the function builder.
\<close>

record Generator =
  sourceGraphIsSet :: bool
  parsingStateVariables :: bool
  stateVariables :: "HeartVariable list"
  generatedVariable :: "string \<rightharpoonup> HeartVariable"
  builderRequests :: "BuilderRequest list"

definition createVariableDeclaration ::
  "VariableDeclaration \<Rightarrow> Role \<Rightarrow> Generator \<Rightarrow> HeartVariable \<times> Generator" where
  "createVariableDeclaration v r g =
     (let av = \<lparr> hlocation = vcontext v, htype = getType v, hname = vname v, role = r \<rparr>
      in (av, g\<lparr>generatedVariable := (generatedVariable g)(vname v \<mapsto> av)\<rparr>))"

text \<open>\<^verbatim>\<open>HEARTGenerator::visit (AST::VariableDeclaration&)\<close>.\<close>

definition visitVariableDeclaration :: "VariableDeclaration \<Rightarrow> Generator \<Rightarrow> Generator" where
  "visitVariableDeclaration v g =
     (if sourceGraphIsSet g then g
      else if parsingStateVariables g
      then (if isExternal v
            then (case createVariableDeclaration v roleExternal g of
                    (av, g') \<Rightarrow> g'\<lparr>stateVariables := stateVariables g' @ [av]\<rparr>)
            else
              (let type = getType v in
               if \<not> (isConst type
                       \<or> (numWrites v = 0 \<and> (isPrimitive type \<or> isBoundedInt type)))
               then (case createVariableDeclaration v roleState g of
                       (av, g') \<Rightarrow> g'\<lparr>stateVariables := stateVariables g' @ [av]\<rparr>)
               else g))
      else (case createVariableDeclaration v roleMutableLocal g of
              (target, g') \<Rightarrow>
                (case initialValue v of
                   Some e \<Rightarrow> g'\<lparr>builderRequests := builderRequests g' @ [visitWithDestination target e]\<rparr>
                 | None \<Rightarrow> g'\<lparr>builderRequests := builderRequests g' @ [addZeroAssignment target]\<rparr>)))"

text \<open>
  The walk of \<^verbatim>\<open>visit (AST::Processor&)\<close> over the state variables of the processor, made
  with \<^verbatim>\<open>parsingStateVariables\<close> set: one visit per declaration, in order.
\<close>

fun visitStateVariables :: "VariableDeclaration list \<Rightarrow> Generator \<Rightarrow> Generator" where
  "visitStateVariables [] g = g"
| "visitStateVariables (v # vs) g = visitStateVariables vs (visitVariableDeclaration v g)"

text \<open>
  A variable that is folded into a constant at every use: it is not external, and its
  type is const, or it is never written and its type is primitive or a bounded int.
\<close>

definition isFoldedIntoConstant :: "VariableDeclaration \<Rightarrow> bool" where
  "isFoldedIntoConstant v =
     (\<not> isExternal v
      \<and> (isConst (getType v)
         \<or> (numWrites v = 0 \<and> (isPrimitive (getType v) \<or> isBoundedInt (getType v)))))"

definition stateVariableFor :: "VariableDeclaration \<Rightarrow> HeartVariable" where
  "stateVariableFor v =
     \<lparr> hlocation = vcontext v, htype = getType v, hname = vname v,
       role = (if isExternal v then roleExternal else roleState) \<rparr>"

lemma visit_state_flags:
  "sourceGraphIsSet (visitVariableDeclaration v g) = sourceGraphIsSet g"
  "parsingStateVariables (visitVariableDeclaration v g) = parsingStateVariables g"
  by (auto simp: visitVariableDeclaration_def createVariableDeclaration_def Let_def
           split: option.splits)

lemma visit_state_variable:
  "\<not> sourceGraphIsSet g \<Longrightarrow> parsingStateVariables g \<Longrightarrow>
   stateVariables (visitVariableDeclaration v g)
     = stateVariables g @ (if isFoldedIntoConstant v then [] else [stateVariableFor v])"
  by (auto simp: visitVariableDeclaration_def createVariableDeclaration_def Let_def
        isFoldedIntoConstant_def stateVariableFor_def)

lemma visitStateVariables_list:
  "\<not> sourceGraphIsSet g \<Longrightarrow> parsingStateVariables g \<Longrightarrow>
   stateVariables (visitStateVariables vs g)
     = stateVariables g @ map stateVariableFor (filter (\<lambda>v. \<not> isFoldedIntoConstant v) vs)"
proof (induction vs arbitrary: g)
  case Nil
  then show ?case by simp
next
  case (Cons v vs)
  from Cons.prems have "\<not> sourceGraphIsSet (visitVariableDeclaration v g)"
    and "parsingStateVariables (visitVariableDeclaration v g)"
    by (simp_all add: visit_state_flags)
  from Cons.IH [OF this] Cons.prems show ?case
    by (simp add: visit_state_variable)
qed

text \<open>
  Claim C5. While the state-scope declarations of a processor are lowered (no source
  graph, \<^verbatim>\<open>parsingStateVariables\<close> set): an external variable is emitted as a state variable
  with the external role; any other variable is emitted as a state variable with the state
  role unless its type is const, or it is never written and its type is primitive or a
  bounded int, and then the generator is left as it was, so that the HEART module gets no
  state-variable record for it. Over the whole list of declarations the state variables of
  the module are those of the declarations that are not folded, in order.
\<close>

theorem state_variables_of_processor:
  assumes "\<not> sourceGraphIsSet g" and "parsingStateVariables g"
  shows "(isExternal v \<longrightarrow>
            stateVariables (visitVariableDeclaration v g)
              = stateVariables g @ [\<lparr> hlocation = vcontext v, htype = getType v, hname = vname v,
                                      role = roleExternal \<rparr>])
       \<and> (\<not> isExternal v
            \<and> \<not> (isConst (getType v)
                   \<or> (numWrites v = 0 \<and> (isPrimitive (getType v) \<or> isBoundedInt (getType v)))) \<longrightarrow>
            stateVariables (visitVariableDeclaration v g)
              = stateVariables g @ [\<lparr> hlocation = vcontext v, htype = getType v, hname = vname v,
                                      role = roleState \<rparr>])
       \<and> (\<not> isExternal v
            \<and> (isConst (getType v)
                 \<or> (numWrites v = 0 \<and> (isPrimitive (getType v) \<or> isBoundedInt (getType v)))) \<longrightarrow>
            visitVariableDeclaration v g = g)
       \<and> stateVariables (visitStateVariables vs g)
            = stateVariables g @ map stateVariableFor (filter (\<lambda>v. \<not> isFoldedIntoConstant v) vs)"
  using assms visitStateVariables_list [OF assms, of vs]
  by (auto simp: visitVariableDeclaration_def createVariableDeclaration_def Let_def)

text \<open>
  The fourth scenario of the specification: a constant \<^verbatim>\<open>N\<close> that is never written, next
  to a variable that is written and an external.
\<close>

definition mkVariable :: "string \<Rightarrow> Type \<Rightarrow> bool \<Rightarrow> nat \<Rightarrow> VariableDeclaration" where
  "mkVariable n t ext writes =
     \<lparr> vcontext = 0, vname = n, declaredType = None, initialValue = None, resolvedType = Some t,
       isExternal = ext, numReads = 1, numWrites = writes \<rparr>"

definition processorGenerator :: Generator where
  "processorGenerator =
     \<lparr> sourceGraphIsSet = False, parsingStateVariables = True, stateVariables = [],
       generatedVariable = Map.empty, builderRequests = [] \<rparr>"

definition var_N :: VariableDeclaration where
  "var_N = mkVariable ''N'' ((mkType (primitive int32))\<lparr>isConstFlag := True\<rparr>) False 0"

definition var_gain :: VariableDeclaration where
  "var_gain = mkVariable ''gain'' (mkType (primitive float32)) False 2"

definition var_table :: VariableDeclaration where
  "var_table = mkVariable ''table'' (mkType (unsizedArray (primitive float32))) True 0"

theorem state_variables_of_processor_witness:
  "visitVariableDeclaration var_N processorGenerator = processorGenerator
   \<and> map hname (stateVariables (visitStateVariables [var_N, var_gain, var_table] processorGenerator))
       = [''gain'', ''table'']
   \<and> map role (stateVariables (visitStateVariables [var_N, var_gain, var_table] processorGenerator))
       = [roleState, roleExternal]"
proof -
  have h1: "\<not> sourceGraphIsSet processorGenerator" by (simp add: processorGenerator_def)
  have h2: "parsingStateVariables processorGenerator" by (simp add: processorGenerator_def)
  have f1: "\<not> isExternal var_N \<and> isConst (getType var_N)" by code_simp
  have f2: "map stateVariableFor (filter (\<lambda>v. \<not> isFoldedIntoConstant v) [var_N, var_gain, var_table])
              = [stateVariableFor var_gain, stateVariableFor var_table]" by code_simp
  have f3: "hname (stateVariableFor var_gain) = ''gain'' \<and> hname (stateVariableFor var_table) = ''table''
            \<and> role (stateVariableFor var_gain) = roleState
            \<and> role (stateVariableFor var_table) = roleExternal" by code_simp
  have f4: "stateVariables processorGenerator = []" by (simp add: processorGenerator_def)
  from state_variables_of_processor [OF h1 h2, of var_N "[var_N, var_gain, var_table]"] f1
  have a: "visitVariableDeclaration var_N processorGenerator = processorGenerator"
    and b: "stateVariables (visitStateVariables [var_N, var_gain, var_table] processorGenerator)
              = stateVariables processorGenerator
                @ map stateVariableFor
                    (filter (\<lambda>v. \<not> isFoldedIntoConstant v) [var_N, var_gain, var_table])"
    by blast+
  from a b f2 f3 f4 show ?thesis by (simp del: visitStateVariables.simps filter.simps)
qed

section \<open>Parsing the logical operators\<close>

text \<open>
  The tokens the two parsing functions look at. The levels of the grammar below the
  logical operators are not unfolded: the token \<open>operand e\<close> stands for a stretch of input
  that \<^verbatim>\<open>parseBitwiseOr\<close> turns into the expression \<open>e\<close>. Every token comes with its
  location, which is what \<^verbatim>\<open>getContext()\<close> gives while the token is the current one.
\<close>

datatype Token = logicalOr | logicalAnd | operand Expression | otherToken string

type_synonym Tokens = "(Token \<times> CodeLocation) list"

fun parseBitwiseOr :: "Tokens \<Rightarrow> CompileMessage + (Expression \<times> Tokens)" where
  "parseBitwiseOr ((operand e, l) # ts) = Inr (e, ts)"
| "parseBitwiseOr ((_, l) # ts) = Inl (otherError ''expected an expression'', l)"
| "parseBitwiseOr [] = Inl (otherError ''expected an expression'', 0)"

lemma parseBitwiseOr_shorter [termination_simp]:
  "parseBitwiseOr ts = Inr (e, ts') \<Longrightarrow> length ts' < length ts"
  by (induction ts rule: parseBitwiseOr.induct) auto

text \<open>
  The loop of \<^verbatim>\<open>StructuralParser::parseLogicalAnd\<close>, with the expression parsed so far: at a
  \<^verbatim>\<open>&&\<close> a ternary is allocated in the context of that token, the token is skipped, and the
  ternary gets the expression so far as its condition, the next operand as its true
  branch and the constant \<^verbatim>\<open>false\<close> as its false branch.
\<close>

function parseLogicalAndLoop :: "Expression \<Rightarrow> Tokens \<Rightarrow> CompileMessage + (Expression \<times> Tokens)" where
  "parseLogicalAndLoop a ((logicalAnd, l) # ts) =
     (case parseBitwiseOr ts of
        Inl e \<Rightarrow> Inl e
      | Inr (b, ts') \<Rightarrow> parseLogicalAndLoop (TernaryOp l a b (Constant l (BoolValue False))) ts')"
| "parseLogicalAndLoop a ((logicalOr, l) # ts) = Inr (a, (logicalOr, l) # ts)"
| "parseLogicalAndLoop a ((operand x, l) # ts) = Inr (a, (operand x, l) # ts)"
| "parseLogicalAndLoop a ((otherToken x, l) # ts) = Inr (a, (otherToken x, l) # ts)"
| "parseLogicalAndLoop a [] = Inr (a, [])"
  by pat_completeness auto
termination
  by (relation "measure (\<lambda>(a, ts). length ts)") (auto dest: parseBitwiseOr_shorter)

definition parseLogicalAnd :: "Tokens \<Rightarrow> CompileMessage + (Expression \<times> Tokens)" where
  "parseLogicalAnd ts =
     (case parseBitwiseOr ts of Inl e \<Rightarrow> Inl e | Inr (a, ts') \<Rightarrow> parseLogicalAndLoop a ts')"

lemma parseLogicalAndLoop_shorter:
  "parseLogicalAndLoop a ts = Inr (e, ts') \<Longrightarrow> length ts' \<le> length ts"
proof (induction a ts rule: parseLogicalAndLoop.induct)
  case (1 a l ts)
  from "1.prems" obtain b ts1 where p: "parseBitwiseOr ts = Inr (b, ts1)"
    and r: "parseLogicalAndLoop (TernaryOp l a b (Constant l (BoolValue False))) ts1 = Inr (e, ts')"
    by (auto split: sum.splits)
  from "1.IH" [OF p refl r] parseBitwiseOr_shorter [OF p] show ?case by simp
qed auto

lemma parseLogicalAnd_shorter:
  "parseLogicalAnd ts = Inr (e, ts') \<Longrightarrow> length ts' < length ts"
  by (auto simp: parseLogicalAnd_def split: sum.splits
        dest!: parseBitwiseOr_shorter parseLogicalAndLoop_shorter)

text \<open>
  The loop of \<^verbatim>\<open>StructuralParser::parseLogicalOr\<close>: at a \<^verbatim>\<open>||\<close> the ternary gets the
  expression so far as its condition, the constant \<^verbatim>\<open>true\<close> as its true branch and the next
  operand of the and-level as its false branch.
\<close>

function parseLogicalOrLoop :: "Expression \<Rightarrow> Tokens \<Rightarrow> CompileMessage + (Expression \<times> Tokens)" where
  "parseLogicalOrLoop a ((logicalOr, l) # ts) =
     (case parseLogicalAnd ts of
        Inl e \<Rightarrow> Inl e
      | Inr (b, ts') \<Rightarrow> parseLogicalOrLoop (TernaryOp l a (Constant l (BoolValue True)) b) ts')"
| "parseLogicalOrLoop a ((logicalAnd, l) # ts) = Inr (a, (logicalAnd, l) # ts)"
| "parseLogicalOrLoop a ((operand x, l) # ts) = Inr (a, (operand x, l) # ts)"
| "parseLogicalOrLoop a ((otherToken x, l) # ts) = Inr (a, (otherToken x, l) # ts)"
| "parseLogicalOrLoop a [] = Inr (a, [])"
  by pat_completeness auto
termination
  by (relation "measure (\<lambda>(a, ts). length ts)") (auto dest: parseLogicalAnd_shorter)

definition parseLogicalOr :: "Tokens \<Rightarrow> CompileMessage + (Expression \<times> Tokens)" where
  "parseLogicalOr ts =
     (case parseLogicalAnd ts of Inl e \<Rightarrow> Inl e | Inr (a, ts') \<Rightarrow> parseLogicalOrLoop a ts')"

subsection \<open>What the ternaries compute\<close>

text \<open>
  The generator lowers a ternary (\<^verbatim>\<open>HEARTGenerator::visit (AST::TernaryOp&)\<close>) to a branch
  on the condition into one block per branch, so that the condition is evaluated and then
  one branch only; the constant folder selects the branch of a constant condition in the
  same way. \<open>evaluate\<close> gives the value of an expression built from constants, variables and
  ternaries, together with the variables read on the way, in the order they are read.
\<close>

fun evaluate :: "(string \<Rightarrow> Value) \<Rightarrow> Expression \<Rightarrow> (Value \<times> string list) option" where
  "evaluate env (Constant _ v) = Some (v, [])"
| "evaluate env (VariableRef _ n _) = Some (env n, [n])"
| "evaluate env (TernaryOp _ c t f) =
     (case evaluate env c of
        Some (BoolValue True, reads) \<Rightarrow>
          map_option (\<lambda>(v, reads'). (v, reads @ reads')) (evaluate env t)
      | Some (BoolValue False, reads) \<Rightarrow>
          map_option (\<lambda>(v, reads'). (v, reads @ reads')) (evaluate env f)
      | _ \<Rightarrow> None)"
| "evaluate env _ = None"

text \<open>
  The short-circuit operators in the words of the specification: the right-hand operand
  is evaluated only when the left-hand one does not decide the result.
\<close>

definition shortCircuitOr :: "(string \<Rightarrow> Value) \<Rightarrow> Expression \<Rightarrow> Expression \<Rightarrow> (Value \<times> string list) option" where
  "shortCircuitOr env a b =
     (case evaluate env a of
        Some (BoolValue True, reads) \<Rightarrow> Some (BoolValue True, reads)
      | Some (BoolValue False, reads) \<Rightarrow>
          (case evaluate env b of Some (v, reads') \<Rightarrow> Some (v, reads @ reads') | None \<Rightarrow> None)
      | _ \<Rightarrow> None)"

definition shortCircuitAnd :: "(string \<Rightarrow> Value) \<Rightarrow> Expression \<Rightarrow> Expression \<Rightarrow> (Value \<times> string list) option" where
  "shortCircuitAnd env a b =
     (case evaluate env a of
        Some (BoolValue False, reads) \<Rightarrow> Some (BoolValue False, reads)
      | Some (BoolValue True, reads) \<Rightarrow>
          (case evaluate env b of Some (v, reads') \<Rightarrow> Some (v, reads @ reads') | None \<Rightarrow> None)
      | _ \<Rightarrow> None)"

fun startsWith :: "Token \<Rightarrow> Tokens \<Rightarrow> bool" where
  "startsWith t ((t', l) # ts) = (t' = t)"
| "startsWith t [] = False"

lemma parseLogicalAndLoop_stops:
  "\<not> startsWith logicalAnd ts \<Longrightarrow> parseLogicalAndLoop a ts = Inr (a, ts)"
  by (induction a ts rule: parseLogicalAndLoop.induct) auto

lemma parseLogicalOrLoop_stops:
  "\<not> startsWith logicalOr ts \<Longrightarrow> parseLogicalOrLoop a ts = Inr (a, ts)"
  by (induction a ts rule: parseLogicalOrLoop.induct) auto

lemma evaluate_or:
  "evaluate env (TernaryOp l a (Constant l (BoolValue True)) b) = shortCircuitOr env a b"
  by (auto simp: shortCircuitOr_def split: option.splits Value.splits bool.splits)

lemma evaluate_and:
  "evaluate env (TernaryOp l a b (Constant l (BoolValue False))) = shortCircuitAnd env a b"
  by (auto simp: shortCircuitAnd_def split: option.splits Value.splits bool.splits)

text \<open>
  Claim C8. The parser turns the short-circuit operators into ternaries: where the
  and-level parses \<open>a\<close>, a \<^verbatim>\<open>||\<close> follows and the and-level parses \<open>b\<close> after it,
  \<^verbatim>\<open>parseLogicalOr\<close> returns the ternary \<open>a ? true : b\<close>; where an operand \<open>a\<close>, a \<^verbatim>\<open>&&\<close> and an
  operand \<open>b\<close> follow one another, \<^verbatim>\<open>parseLogicalAnd\<close> returns \<open>a ? b : false\<close>. Each ternary
  has the value of the short-circuit operator and reads the same variables: the right-hand
  operand is evaluated only when the left-hand one does not decide the result.
\<close>

theorem logical_operators_become_ternaries:
  "(parseLogicalAnd ts = Inr (a, (logicalOr, l) # ts1) \<and> parseLogicalAnd ts1 = Inr (b, ts2)
      \<and> \<not> startsWith logicalOr ts2
    \<longrightarrow> parseLogicalOr ts = Inr (TernaryOp l a (Constant l (BoolValue True)) b, ts2))
   \<and> (parseBitwiseOr ts = Inr (a, (logicalAnd, l) # ts1) \<and> parseBitwiseOr ts1 = Inr (b, ts2)
      \<and> \<not> startsWith logicalAnd ts2
    \<longrightarrow> parseLogicalAnd ts = Inr (TernaryOp l a b (Constant l (BoolValue False)), ts2))
   \<and> evaluate env (TernaryOp l a (Constant l (BoolValue True)) b) = shortCircuitOr env a b
   \<and> evaluate env (TernaryOp l a b (Constant l (BoolValue False))) = shortCircuitAnd env a b"
  by (simp add: parseLogicalOr_def parseLogicalAnd_def parseLogicalOrLoop_stops
        parseLogicalAndLoop_stops evaluate_or evaluate_and del: evaluate.simps)

text \<open>The input \<^verbatim>\<open>x || y\<close>, evaluated where \<^verbatim>\<open>x\<close> is true.\<close>

definition var_x :: Expression where
  "var_x = VariableRef 0 ''x'' (mkType (primitive prim_bool))"

definition var_y :: Expression where
  "var_y = VariableRef 2 ''y'' (mkType (primitive prim_bool))"

theorem logical_operators_become_ternaries_witness:
  "parseLogicalOr [(operand var_x, 0), (logicalOr, 1), (operand var_y, 2)]
     = Inr (TernaryOp 1 var_x (Constant 1 (BoolValue True)) var_y, [])
   \<and> evaluate (\<lambda>n. BoolValue (n = ''x'')) (TernaryOp 1 var_x (Constant 1 (BoolValue True)) var_y)
       = Some (BoolValue True, [''x''])"
proof -
  have h1: "parseLogicalAnd [(operand var_x, 0), (logicalOr, 1), (operand var_y, 2)]
              = Inr (var_x, (logicalOr, 1) # [(operand var_y, 2)])"
    by (simp add: parseLogicalAnd_def)
  have h2: "parseLogicalAnd [(operand var_y, 2)] = Inr (var_y, [])"
    by (simp add: parseLogicalAnd_def)
  have h3: "\<not> startsWith logicalOr []" by simp
  have s: "shortCircuitOr (\<lambda>n. BoolValue (n = ''x'')) var_x var_y = Some (BoolValue True, [''x''])"
    by (simp add: shortCircuitOr_def var_x_def)
  from logical_operators_become_ternaries
         [of "[(operand var_x, 0), (logicalOr, 1), (operand var_y, 2)]" var_x 1 "[(operand var_y, 2)]"
             var_y "[]" "\<lambda>n. BoolValue (n = ''x'')"]
       h1 h2 h3 s
  show ?thesis by (simp del: evaluate.simps)
qed

section \<open>The fixed-point driver of the resolver\<close>























subsection \<open>The runs that return\<close>











subsection \<open>A run that does not return\<close>






section \<open>Constant folding of binary operators\<close>

text \<open>
  \<^verbatim>\<open>AST::BinaryOperator\<close>, as its context, its two operands, its operation and the answers
  of \<^verbatim>\<open>isResolved()\<close>, \<^verbatim>\<open>isOutputEndpoint()\<close> and \<^verbatim>\<open>getOperandType()\<close>. The parser
  (\<^verbatim>\<open>parseMultiplyDivide\<close>) takes the context of the node at the operator token, before it
  parses the right-hand operand.
\<close>

record BinaryOperatorNode =
  bcontext :: CodeLocation
  lhs :: Argument
  rhs :: Argument
  operation :: BinaryOp
  bIsResolved :: bool
  bIsOutputEndpoint :: bool
  operandType :: Type

text \<open>
  The value arithmetic lives outside the sources at hand and is a parameter: \<open>arithmetic\<close>
  computes an operation on two constants where one is defined, \<open>canSilentlyCastValue\<close> is
  \<^verbatim>\<open>TypeRules::canSilentlyCastTo\<close> on a value and \<open>castToTypeExpectingSuccess\<close> the cast.
\<close>

record ValueRules =
  arithmetic :: "Value \<Rightarrow> Value \<Rightarrow> BinaryOp \<Rightarrow> Value option"
  canSilentlyCastValue :: "Type \<Rightarrow> Value \<Rightarrow> bool"
  castToTypeExpectingSuccess :: "Value \<Rightarrow> Type \<Rightarrow> Value"

text \<open>
  Modelled from the spec: \<^verbatim>\<open>BinaryOp::apply\<close> is declared outside the sources at hand.
  Section 4.4 says of the constant folder that it folds a binary operator on two
  constants and that division and modulo by zero are compile-time errors. \<open>Inl\<close> is the
  message \<^verbatim>\<open>apply\<close> hands to the error handler it is given, \<open>Inr (Some v)\<close> the folded value
  and \<open>Inr None\<close> the answer that nothing was folded.
\<close>

definition BinaryOp_apply :: "ValueRules \<Rightarrow> Value \<Rightarrow> Value \<Rightarrow> BinaryOp \<Rightarrow> Errors + Value option" where
  "BinaryOp_apply V a b op =
     (if op = divide \<and> isZero b then Inl divideByZero
      else if op = modulo \<and> isZero b then Inl moduloZero
      else Inr (arithmetic V a b op))"

datatype FoldedOperator = sameOperator | createConstant CodeLocation Value

text \<open>
  \<^verbatim>\<open>ConstantFolder::visit (AST::BinaryOperator&)\<close>, after the visit of the operands. The
  error handler given to \<^verbatim>\<open>BinaryOp::apply\<close> throws the message at the context of the
  operator. The second component of the result is the failure counter.
\<close>

definition foldBinaryOperator ::
  "ValueRules \<Rightarrow> BinaryOperatorNode \<Rightarrow> nat \<Rightarrow> CompileMessage + (FoldedOperator \<times> nat)" where
  "foldBinaryOperator V b fails =
     (if \<not> bIsResolved b then Inr (sameOperator, fails + 1)
      else
        (case throwErrorIfNotReadableValue (rhs b) of
           Some e \<Rightarrow> Inl e
         | None \<Rightarrow>
             if bIsOutputEndpoint b then Inr (sameOperator, fails + 1)
             else
               (case throwErrorIfNotReadableValue (lhs b) of
                  Some e \<Rightarrow> Inl e
                | None \<Rightarrow>
                    if isValid (operandType b)
                    then (case argConstant (lhs b) of
                            None \<Rightarrow> Inr (sameOperator, fails)
                          | Some lhsConst \<Rightarrow>
                              (case argConstant (rhs b) of
                                 None \<Rightarrow> Inr (sameOperator, fails)
                               | Some rhsConst \<Rightarrow>
                                   (case BinaryOp_apply V lhsConst rhsConst (operation b) of
                                      Inl message \<Rightarrow> Inl (message, bcontext b)
                                    | Inr (Some result) \<Rightarrow>
                                        Inr (createConstant (bcontext b) result, fails)
                                    | Inr None \<Rightarrow> Inr (sameOperator, fails))))
                    else Inr (sameOperator, fails))))"

text \<open>A constant operand: what \<^verbatim>\<open>allocate<AST::Constant> (context, value)\<close> answers.\<close>

definition constantOperand :: "CodeLocation \<Rightarrow> Type \<Rightarrow> Value \<Rightarrow> Argument" where
  "constantOperand c t v =
     \<lparr> acontext = c, argNode = isOtherNode, argIsResolved = True, argIsResolvedAsValue = True,
       argResultType = t,
       argStringLiteral = (case v of StringValue text \<Rightarrow> Some text | _ \<Rightarrow> None),
       argConstant = Some v \<rparr>"

text \<open>
  \<^verbatim>\<open>FullResolver::visit (AST::BinaryOperator&)\<close>: for an operator that is still not
  resolved and whose operand types differ, constants are cast to the type of the other
  side where that is silent, and a zero constant on the right of a division or a modulo
  is an error thrown at the context of that operand.
\<close>

definition checkBinaryOperator ::
  "ValueRules \<Rightarrow> BinaryOperatorNode \<Rightarrow> CompileMessage + BinaryOperatorNode" where
  "checkBinaryOperator V b =
     (case throwErrorIfNotReadableValue (rhs b) of
        Some e \<Rightarrow> Inl e
      | None \<Rightarrow>
          if bIsOutputEndpoint b then Inr b
          else
            (case throwErrorIfNotReadableValue (lhs b) of
               Some e \<Rightarrow> Inl e
             | None \<Rightarrow>
                 if \<not> bIsResolved b
                 then
                   (let lhsType = argResultType (lhs b); rhsType = argResultType (rhs b) in
                    if \<not> isIdentical lhsType rhsType
                    then
                      (let b1 = (case argConstant (lhs b) of
                                   Some lhsConst \<Rightarrow>
                                     if canSilentlyCastValue V rhsType lhsConst
                                     then b\<lparr>lhs := constantOperand (acontext (lhs b)) rhsType
                                                      (castToTypeExpectingSuccess V lhsConst rhsType)\<rparr>
                                     else b
                                 | None \<Rightarrow> b)
                       in case argConstant (rhs b1) of
                            None \<Rightarrow> Inr b1
                          | Some rhsConst \<Rightarrow>
                              (let b2 = (if canSilentlyCastValue V lhsType rhsConst
                                         then b1\<lparr>rhs := constantOperand (acontext (rhs b1)) lhsType
                                                         (castToTypeExpectingSuccess V rhsConst lhsType)\<rparr>
                                         else b1)
                               in if isZero rhsConst
                                  then (if operation b2 = modulo then Inl (moduloZero, acontext (rhs b2))
                                        else if operation b2 = divide
                                        then Inl (divideByZero, acontext (rhs b2))
                                        else Inr b2)
                                  else Inr b2))
                    else Inr b)
                 else if \<not> isValid (operandType b)
                 then Inl (illegalTypesForBinaryOperator, bcontext b)
                 else Inr b))"

text \<open>
  Rules for concrete runs: integer addition and division, and the silent cast of an
  integer constant to \<^verbatim>\<open>float32\<close> (the \<^verbatim>\<open>'0' to '0.0f'\<close> of the comment in
  \<^verbatim>\<open>FullResolver::visit\<close>).
\<close>

definition literalRules :: ValueRules where
  "literalRules =
     \<lparr> arithmetic = (\<lambda>a b op. case (a, b) of
          (Int32Value x, Int32Value y) \<Rightarrow>
            (if op = add then Some (Int32Value (x + y))
             else if op = divide then Some (Int32Value (sgn x * sgn y * (\<bar>x\<bar> div \<bar>y\<bar>)))
             else None)
        | _ \<Rightarrow> None),
       canSilentlyCastValue = (\<lambda>t v. category t = primitive float32 \<and> isPrimitiveInteger v),
       castToTypeExpectingSuccess = (\<lambda>v t.
          if category t = primitive float32 then Float32Value (getAsInt64 v) 0 else v) \<rparr>"

text \<open>
  The fifth scenario of the specification, \<^verbatim>\<open>int x = 1 / 0;\<close>, as the folder meets it: the
  literal \<^verbatim>\<open>1\<close> at location 0, the operator at 2, the literal \<^verbatim>\<open>0\<close> at 4.
\<close>

definition one_over_zero :: BinaryOperatorNode where
  "one_over_zero =
     \<lparr> bcontext = 2,
       lhs = constantOperand 0 (mkType (primitive int32)) (Int32Value 1),
       rhs = constantOperand 4 (mkType (primitive int32)) (Int32Value 0),
       operation = divide, bIsResolved = True, bIsOutputEndpoint = False,
       operandType = mkType (primitive int32) \<rparr>"

text \<open>
  \<^verbatim>\<open>1.0f % 0.0f\<close>, resolved with operand type \<^verbatim>\<open>float32\<close>: the literal \<^verbatim>\<open>1.0f\<close> at
  location 0, the operator at 5, the literal \<^verbatim>\<open>0.0f\<close> at 7.
\<close>

definition float_modulo_zero :: BinaryOperatorNode where
  "float_modulo_zero =
     \<lparr> bcontext = 5,
       lhs = constantOperand 0 (mkType (primitive float32)) (Float32Value 1 0),
       rhs = constantOperand 7 (mkType (primitive float32)) (Float32Value 0 0),
       operation = modulo, bIsResolved = True, bIsOutputEndpoint = False,
       operandType = mkType (primitive float32) \<rparr>"

text \<open>
  \<^verbatim>\<open>1.0f / 0\<close>, as the final resolver meets it when the operator has not been resolved from
  the types \<^verbatim>\<open>float32\<close> and \<^verbatim>\<open>int32\<close> of its operands: the literal \<^verbatim>\<open>1.0f\<close> at location 0,
  the operator at 5, the literal \<^verbatim>\<open>0\<close> at 7.
\<close>

definition float_over_zero :: BinaryOperatorNode where
  "float_over_zero =
     \<lparr> bcontext = 5,
       lhs = constantOperand 0 (mkType (primitive float32)) (Float32Value 1 0),
       rhs = constantOperand 7 (mkType (primitive int32)) (Int32Value 0),
       operation = divide, bIsResolved = False, bIsOutputEndpoint = False,
       operandType = mkType invalid \<rparr>"

text \<open>
  Claim C6 says that a division or a modulo of two constants with a zero on the right
  fails with the error at the location of the zero operand. The final resolver does so:
  for \<^verbatim>\<open>1.0f / 0\<close> it throws at the literal \<^verbatim>\<open>0\<close>. The constant folder, which is the first
  to meet a resolved operator, does not: the handler it gives to \<^verbatim>\<open>BinaryOp::apply\<close> throws
  at the context of the operator, so that for \<^verbatim>\<open>1 / 0\<close> and for \<^verbatim>\<open>1.0f % 0.0f\<close> the error is
  at the operator and not at the zero operand.
\<close>

theorem zero_divisor_reported_at_operator:
  "foldBinaryOperator literalRules one_over_zero 0 = Inl (divideByZero, 2)
   \<and> acontext (rhs one_over_zero) = 4
   \<and> foldBinaryOperator literalRules one_over_zero 0
       \<noteq> Inl (divideByZero, acontext (rhs one_over_zero))
   \<and> foldBinaryOperator literalRules float_modulo_zero 0 = Inl (moduloZero, 5)
   \<and> acontext (rhs float_modulo_zero) = 7
   \<and> checkBinaryOperator literalRules float_over_zero = Inl (divideByZero, 7)
   \<and> acontext (rhs float_over_zero) = 7"
  by code_simp


section \<open>Lowering of functions and block termination\<close>

text \<open>
  Modelled from the spec: the HEART function and block types are declared outside the
  sources at hand. By section 3 a block is an ordered statement list that ends with a
  branch, a branch-if or a return; a block has one place for its terminator, empty until
  the block is terminated.
\<close>

datatype Terminator = Branch nat | BranchIf nat nat | ReturnVoid | ReturnValue

record HeartBlock =
  statements :: "string list"
  terminator :: "Terminator option"

definition isTerminated :: "HeartBlock \<Rightarrow> bool" where
  "isTerminated b = (terminator b \<noteq> None)"

record HeartFunction =
  hfname :: string
  hreturnType :: Type
  hparameters :: "HeartVariable list"
  blocks :: "HeartBlock list"
  isInitFunction :: bool
  isEventFunction :: bool
  hasNoBody :: bool

text \<open>
  Modelled from the spec: \<^verbatim>\<open>FunctionBuilder::checkFunctionBlocksForTermination\<close> is declared
  outside the sources at hand. Section 4.7 says that after lowering every block must end
  in a terminator, and that a block that does not is a matter for dead-block elimination
  and then an error if the function is non-void; section 8 says that every block of every
  HEART function ends in a terminator. The comment at the call in \<^verbatim>\<open>generateFunction\<close> says
  the same: the check fails if the function is not void but some block ends without
  returning a value. So the check completes the open blocks of a void function with a
  return and answers true, and answers false for a non-void function with an open block.
\<close>

definition terminateWithReturn :: "HeartBlock \<Rightarrow> HeartBlock" where
  "terminateWithReturn b = (if isTerminated b then b else b\<lparr>terminator := Some ReturnVoid\<rparr>)"

definition checkFunctionBlocksForTermination :: "HeartFunction \<Rightarrow> bool \<times> HeartFunction" where
  "checkFunctionBlocksForTermination af =
     (if list_all isTerminated (blocks af) then (True, af)
      else if isVoid (hreturnType af)
      then (True, af\<lparr>blocks := map terminateWithReturn (blocks af)\<rparr>)
      else (False, af))"

text \<open>
  The loop over the parameters in \<^verbatim>\<open>HEARTGenerator::generateFunction\<close>.
\<close>

fun addParameters ::
  "VariableDeclaration list \<Rightarrow> HeartFunction \<times> Generator \<Rightarrow> CompileMessage + (HeartFunction \<times> Generator)" where
  "addParameters [] x = Inr x"
| "addParameters (p # ps) (af, g) =
     (case createVariableDeclaration p roleParameter g of
        (v, g') \<Rightarrow>
          if isEventFunction af \<and> isNonConstReference (htype v)
          then Inl (eventParamsCannotBeNonConstReference, vcontext p)
          else addParameters ps (af\<lparr>hparameters := hparameters af @ [v]\<rparr>, g'))"

text \<open>
  \<^verbatim>\<open>HEARTGenerator::generateFunction\<close>. Two things it calls are parameters: \<open>lowerBody\<close>, the
  visit of the body, at the end of which the builder has filled in the blocks of the
  function (or which throws), and \<open>optimiseFunctionBlocks\<close>, the dead-block elimination of
  \<^verbatim>\<open>Optimisations\<close>.
\<close>

definition generateFunction ::
  "(Statement list \<Rightarrow> HeartFunction \<times> Generator \<Rightarrow> CompileMessage + (HeartBlock list \<times> Generator))
   \<Rightarrow> (HeartFunction \<Rightarrow> HeartFunction) \<Rightarrow> Function \<Rightarrow> HeartFunction \<Rightarrow> Generator
   \<Rightarrow> CompileMessage + (HeartFunction \<times> Generator)" where
  "generateFunction lowerBody optimiseFunctionBlocks f af g =
     (case addParameters (parameters f) (af\<lparr>hreturnType := returnType f\<rparr>, g) of
        Inl e \<Rightarrow> Inl e
      | Inr (af1, g1) \<Rightarrow>
          (case block f of
             Some body \<Rightarrow>
               (case lowerBody body (af1, g1) of
                  Inl e \<Rightarrow> Inl e
                | Inr (bs, g2) \<Rightarrow>
                    (case checkFunctionBlocksForTermination (af1\<lparr>blocks := bs\<rparr>) of
                       (True, af3) \<Rightarrow> Inr (af3, g2)
                     | (False, af3) \<Rightarrow>
                         (case checkFunctionBlocksForTermination (optimiseFunctionBlocks af3) of
                            (True, af4) \<Rightarrow> Inr (af4, g2)
                          | (False, af4) \<Rightarrow>
                              Inl (notAllControlPathsReturnAValue, fcontext f))))
           | None \<Rightarrow> Inr (af1\<lparr>hasNoBody := True\<rparr>, g1)))"

text \<open>
  \<^verbatim>\<open>HEARTGenerator::createInitFunction\<close>: the function is void, and the answer of the check
  is not looked at. \<open>addStateVariableInitialisationCode\<close>, which makes the builder fill in
  the blocks, is a parameter.
\<close>

definition createInitFunction ::
  "(HeartFunction \<times> Generator \<Rightarrow> CompileMessage + (HeartBlock list \<times> Generator)) \<Rightarrow> string
   \<Rightarrow> Generator \<Rightarrow> CompileMessage + (HeartFunction \<times> Generator)" where
  "createInitFunction addStateVariableInitialisationCode initFunctionName g =
     (let af = \<lparr> hfname = initFunctionName, hreturnType = mkType (primitive prim_void),
                  hparameters = [], blocks = [], isInitFunction = True, isEventFunction = False,
                  hasNoBody = False \<rparr>
      in case addStateVariableInitialisationCode (af, g) of
           Inl e \<Rightarrow> Inl e
         | Inr (bs, g1) \<Rightarrow> Inr (snd (checkFunctionBlocksForTermination (af\<lparr>blocks := bs\<rparr>)), g1))"

lemma isTerminated_terminateWithReturn: "isTerminated (terminateWithReturn b)"
  by (simp add: terminateWithReturn_def isTerminated_def)

lemma check_True:
  "checkFunctionBlocksForTermination af = (True, af') \<Longrightarrow> list_all isTerminated (blocks af')"
  by (auto simp: checkFunctionBlocksForTermination_def list_all_iff
        isTerminated_terminateWithReturn split: if_splits)

lemma check_False:
  "checkFunctionBlocksForTermination af = (False, af') \<longleftrightarrow>
     (af' = af \<and> \<not> isVoid (hreturnType af) \<and> \<not> list_all isTerminated (blocks af))"
  by (auto simp: checkFunctionBlocksForTermination_def)

lemma check_void:
  "isVoid (hreturnType af) \<Longrightarrow> list_all isTerminated (blocks (snd (checkFunctionBlocksForTermination af)))"
  by (auto simp: checkFunctionBlocksForTermination_def list_all_iff isTerminated_terminateWithReturn)

lemma addParameters_keeps:
  "addParameters ps (af, g) = Inr (af1, g1) \<Longrightarrow>
   blocks af1 = blocks af \<and> hreturnType af1 = hreturnType af"
proof (induction ps arbitrary: af g)
  case Nil
  then show ?case by simp
next
  case (Cons p ps)
  then show ?case
    by (auto simp: createVariableDeclaration_def Let_def split: if_splits)
qed

lemma generateFunction_terminated:
  assumes "generateFunction L opt f af g = Inr (af', g')" and "blocks af = []"
  shows "list_all isTerminated (blocks af')"
proof -
  from assms(1) obtain af1 g1 where
    p: "addParameters (parameters f) (af\<lparr>hreturnType := returnType f\<rparr>, g) = Inr (af1, g1)"
    by (auto simp: generateFunction_def split: sum.splits)
  from addParameters_keeps [OF p] assms(2) have b1: "blocks af1 = []" by simp
  show ?thesis
  proof (cases "block f")
    case None
    with assms(1) p b1 show ?thesis by (auto simp: generateFunction_def)
  next
    case (Some body)
    with assms(1) p show ?thesis
      by (auto simp: generateFunction_def split: sum.splits prod.splits bool.splits
            dest: check_True)
  qed
qed

lemma createInitFunction_terminated:
  "createInitFunction I n g = Inr (init, g') \<Longrightarrow> list_all isTerminated (blocks init)"
  by (auto simp: createInitFunction_def Let_def isVoid_def mkType_def
        split: sum.splits intro!: check_void)

lemma generateFunction_open_block:
  assumes "addParameters (parameters f) (af\<lparr>hreturnType := returnType f\<rparr>, g) = Inr (af1, g1)"
    and "block f = Some body" and "L body (af1, g1) = Inr (bs, g2)"
    and "\<not> isVoid (returnType f)" and "\<not> list_all isTerminated bs"
  shows "generateFunction L opt f af g
           = (case checkFunctionBlocksForTermination (opt (af1\<lparr>blocks := bs\<rparr>)) of
                (True, af4) \<Rightarrow> Inr (af4, g2)
              | (False, af4) \<Rightarrow> Inl (notAllControlPathsReturnAValue, fcontext f))"
proof -
  from addParameters_keeps [OF assms(1)] have "hreturnType af1 = returnType f" by simp
  with assms(4,5) have "checkFunctionBlocksForTermination (af1\<lparr>blocks := bs\<rparr>)
                          = (False, af1\<lparr>blocks := bs\<rparr>)"
    by (simp add: check_False)
  with assms(1,2,3) show ?thesis by (simp add: generateFunction_def)
qed


text \<open>
  Claim C4, as amended. Every block of a function that the generator emits without an
  error ends in a terminator, of which a block has exactly one: this holds for the
  functions lowered from the AST, given a generated function that starts without blocks,
  and for the init function. If after lowering a non-void function some block lacks a
  terminator, dead-block elimination is run first, and if the check then still fails the
  error "not all control paths return a value" is raised at the function.
\<close>

theorem every_block_ends_in_a_terminator:
  "(generateFunction L opt f af g = Inr (af', g') \<and> blocks af = [] \<longrightarrow>
      list_all isTerminated (blocks af'))
   \<and> (createInitFunction I n g = Inr (init, g'') \<longrightarrow> list_all isTerminated (blocks init))
   \<and> (addParameters (parameters f) (af\<lparr>hreturnType := returnType f\<rparr>, g) = Inr (af1, g1)
        \<and> block f = Some body \<and> L body (af1, g1) = Inr (bs, g2)
        \<and> \<not> isVoid (returnType f) \<and> \<not> list_all isTerminated bs \<longrightarrow>
      generateFunction L opt f af g
        = (case checkFunctionBlocksForTermination (opt (af1\<lparr>blocks := bs\<rparr>)) of
             (True, af4) \<Rightarrow> Inr (af4, g2)
           | (False, af4) \<Rightarrow> Inl (notAllControlPathsReturnAValue, fcontext f)))"
  using generateFunction_terminated [of L opt f af g af' g']
    createInitFunction_terminated [of I n g init g'']
    generateFunction_open_block [of f af g af1 g1 body L bs g2 opt]
  by blast

text \<open>
  Concrete runs: a function that returns an \<^verbatim>\<open>int32\<close> and a void function, a lowering that
  leaves given blocks, and two stand-ins for the dead-block elimination, one that removes
  the open blocks and one that removes every block.
\<close>

definition freshFunction :: HeartFunction where
  "freshFunction =
     \<lparr> hfname = ''f'', hreturnType = mkType invalid, hparameters = [], blocks = [],
       isInitFunction = False, isEventFunction = False, hasNoBody = False \<rparr>"

definition returningBlock :: HeartBlock where
  "returningBlock = \<lparr> statements = [''x = 1''], terminator = Some ReturnValue \<rparr>"

definition openBlock :: HeartBlock where
  "openBlock = \<lparr> statements = [], terminator = None \<rparr>"

definition removeOpenBlocks :: "HeartFunction \<Rightarrow> HeartFunction" where
  "removeOpenBlocks af = af\<lparr>blocks := filter isTerminated (blocks af)\<rparr>"

definition dropAllBlocks :: "HeartFunction \<Rightarrow> HeartFunction" where
  "dropAllBlocks af = af\<lparr>blocks := []\<rparr>"

definition intFunction :: Function where
  "intFunction = (mkFunction 8 ''f'' [])\<lparr>returnType := mkType (primitive int32)\<rparr>"

definition voidFunction :: Function where
  "voidFunction = mkFunction 9 ''g'' []"

definition lowersTo :: "HeartBlock list \<Rightarrow> Statement list \<Rightarrow> HeartFunction \<times> Generator
    \<Rightarrow> CompileMessage + (HeartBlock list \<times> Generator)" where
  "lowersTo bs body = (\<lambda>(af, g). Inr (bs, g))"

theorem every_block_ends_in_a_terminator_witness:
  "map_sum id (blocks \<circ> fst)
     (generateFunction (lowersTo [returningBlock, openBlock]) removeOpenBlocks intFunction
        freshFunction processorGenerator)
     = Inr [returningBlock]
   \<and> list_all isTerminated [returningBlock]"
proof -
  let ?af1 = "freshFunction\<lparr>hreturnType := returnType intFunction\<rparr>"
  have h: "addParameters (parameters intFunction) (?af1, processorGenerator)
             = Inr (?af1, processorGenerator)"
    by (simp add: intFunction_def mkFunction_def)
  have b: "block intFunction = Some []" by (simp add: intFunction_def mkFunction_def)
  have l: "lowersTo [returningBlock, openBlock] [] (?af1, processorGenerator)
             = Inr ([returningBlock, openBlock], processorGenerator)"
    by (simp add: lowersTo_def)
  have nv: "\<not> isVoid (returnType intFunction)" by code_simp
  have no: "\<not> list_all isTerminated [returningBlock, openBlock]" by code_simp
  have c: "checkFunctionBlocksForTermination
             (removeOpenBlocks (?af1\<lparr>blocks := [returningBlock, openBlock]\<rparr>))
             = (True, ?af1\<lparr>blocks := [returningBlock]\<rparr>)"
    by code_simp
  from every_block_ends_in_a_terminator
         [where L = "lowersTo [returningBlock, openBlock]" and opt = removeOpenBlocks
            and f = intFunction and af = freshFunction and g = processorGenerator
            and ?af1.0 = ?af1 and ?g1.0 = processorGenerator and body = "[]"
            and bs = "[returningBlock, openBlock]" and ?g2.0 = processorGenerator]
       h b l nv no
  have "generateFunction (lowersTo [returningBlock, openBlock]) removeOpenBlocks intFunction
          freshFunction processorGenerator
        = (case checkFunctionBlocksForTermination
                  (removeOpenBlocks (?af1\<lparr>blocks := [returningBlock, openBlock]\<rparr>)) of
             (True, af4) \<Rightarrow> Inr (af4, processorGenerator)
           | (False, af4) \<Rightarrow> Inl (notAllControlPathsReturnAValue, fcontext intFunction))"
    by blast
  with c have "map_sum id (blocks \<circ> fst)
     (generateFunction (lowersTo [returningBlock, openBlock]) removeOpenBlocks intFunction
        freshFunction processorGenerator) = Inr [returningBlock]"
    by simp
  moreover have "list_all isTerminated [returningBlock]" by code_simp
  ultimately show ?thesis by simp
qed


text \<open>
  The claim as first stated runs the dead-block elimination for any function with an open
  block. For a void function the check closes the open block with a return and answers
  true: the elimination is not run (here it would have removed the block) and no error is
  raised.
\<close>

theorem open_block_of_void_function_is_not_eliminated: 
  "\<not> list_all isTerminated [openBlock]
   \<and> map_sum id (blocks \<circ> fst)
        (generateFunction (lowersTo [openBlock]) dropAllBlocks voidFunction freshFunction processorGenerator)
       = Inr [openBlock\<lparr>terminator := Some ReturnVoid\<rparr>]
   \<and> blocks (dropAllBlocks (freshFunction\<lparr>blocks := [openBlock]\<rparr>)) = []"
  by code_simp

end
